theory Spec2Isabelle
  imports Main "HOL-Library.Word" "HOL-Library.Multiset"
begin

section \<open>Machine integers, fatal errors and the accelerator runtime\<close>

text \<open>
  The C++ \<open>int\<close> is a 32-bit word read in two's complement (\<open>sint\<close>, \<open><s\<close>),
  \<open>unsigned\<close> a 32-bit word, \<open>size_t\<close> a 64-bit word. Converting an \<open>int\<close> to
  \<open>size_t\<close> is the sign extension \<open>scast\<close>; converting a \<open>size_t\<close> to \<open>int\<close> keeps the
  low 32 bits (\<open>ucast\<close>).
\<close>

type_synonym cint = "32 word"
type_synonym unsigned = "32 word"
type_synonym size_t = "64 word"

text \<open>
  \<open>ABORT\<close>, \<open>ABORT_IF\<close> and \<open>CUDA_CHECK\<close> end the process. Each abort site of the two
  source files is a constructor:
  \<^item> \<open>WrongBeamDim\<close>: "Input tensor has wrong beam dim??"
  \<^item> \<open>VocabTooLarge\<close>: "GetNBestList(): actual vocab size {} exceeds MAX_VOCAB_SIZE of {}"
  \<^item> \<open>BatchTooLarge\<close>: "GetNBestList(): actual batch size {} exceeds initialization parameter {}"
  \<^item> \<open>BeamTooLarge\<close>: "GetNBestList(): actual beam size {} exceeds initialization parameter {}"
  \<^item> \<open>TypeNotImplemented\<close>: "getNBestList not implemented for type {}"
  \<^item> \<open>WrongResultCount\<close>: "Expected {} but got {} values during topk"
  \<^item> \<open>NoTensorCores\<close>: "Compute capability {} below 7 do not support tensor cores"
  \<^item> \<open>CudaError\<close>: a runtime call wrapped in \<open>CUDA_CHECK\<close> returned an error.
\<close>

datatype abort =
    WrongBeamDim
  | VocabTooLarge
  | BatchTooLarge
  | BeamTooLarge
  | TypeNotImplemented
  | WrongResultCount
  | NoTensorCores
  | CudaError

text \<open>
  A call either returns a result and the state it leaves, or aborts; an abort carries the
  state as it was at that moment, so that what had been done before it can be stated.
\<close>

datatype ('a, 's) outcome = Returned 'a 's | Aborted abort 's

text \<open>
  The calls into the vendor runtime and libraries that the two source files make, in the
  order they are issued. A handle or device is a number; the handle 0 is the null handle.
\<close>

datatype cuda_call =
    SetDevice nat
  | StreamSynchronize
  | MemcpyDeviceToHost nat
  | KernelLaunch
  | CublasCreate
  | CublasSetStream nat
  | CublasDestroy nat
  | CusparseCreate
  | CusparseSetStream nat
  | CusparseDestroy nat
  | Free nat
  | Malloc nat
  | HostAlloc nat

text \<open>
  The runtime as the code can observe it: the number of devices, the device the calling
  thread is bound to, the bytes of device memory and of pinned host memory that can still
  be allocated, the calls issued so far, the copies and synchronizations for which it
  will report an error (a failure of asynchronous work, such as a kernel, surfaces at the
  next of these), the handles the vendor libraries will hand
  out next (0 stands for a creation that fails and hands out nothing), the lines written
  to the log (each with the source line of the statement that wrote it), and the
  \<open>LOG_ONCE\<close> call sites (by source line) whose static flag is set.
\<close>

record runtime =
  device_count :: nat
  current_device :: nat
  device_free :: nat
  host_free :: nat
  calls :: "cuda_call list"
  failing :: "cuda_call list"
  handle_supply :: "nat list"
  logged :: "(nat \<times> string) list"
  once_done :: "nat list"

definition issue :: "cuda_call \<Rightarrow> runtime \<Rightarrow> runtime" where
  "issue c rt = rt\<lparr>calls := calls rt @ [c]\<rparr>"

text \<open>\<open>cudaSetDevice\<close>: binds the thread to a device that exists, fails otherwise.\<close>

definition cudaSetDevice :: "nat \<Rightarrow> runtime \<Rightarrow> bool \<times> runtime" where
  "cudaSetDevice d rt =
     (if d < device_count rt then (True, (issue (SetDevice d) rt)\<lparr>current_device := d\<rparr>)
      else (False, issue (SetDevice d) rt))"

text \<open>\<open>cudaStreamSynchronize\<close>: succeeds unless the runtime has an error to report.\<close>

definition cudaStreamSynchronize :: "runtime \<Rightarrow> bool \<times> runtime" where
  "cudaStreamSynchronize rt = (StreamSynchronize \<notin> set (failing rt), issue StreamSynchronize rt)"

text \<open>
  \<open>cudaMalloc\<close> and \<open>cudaHostAlloc\<close> of a number of bytes, for cells of \<open>cell\<close>
  bytes each: they fail when that many bytes are not to be had, and otherwise hand out a
  buffer of as many cells as fit, holding whatever the memory held (\<open>junk\<close>).
\<close>

definition cudaMalloc :: "nat \<Rightarrow> (nat \<Rightarrow> 'a) \<Rightarrow> size_t \<Rightarrow> runtime \<Rightarrow> 'a list option \<times> runtime" where
  "cudaMalloc cell junk bytes r =
     (if unat bytes \<le> device_free r
      then (Some (map junk [0..<unat bytes div cell]),
            (issue (Malloc (unat bytes)) r)\<lparr>device_free := device_free r - unat bytes\<rparr>)
      else (None, issue (Malloc (unat bytes)) r))"

definition cudaHostAlloc :: "nat \<Rightarrow> (nat \<Rightarrow> 'a) \<Rightarrow> size_t \<Rightarrow> runtime \<Rightarrow> 'a list option \<times> runtime" where
  "cudaHostAlloc cell junk bytes r =
     (if unat bytes \<le> host_free r
      then (Some (map junk [0..<unat bytes div cell]),
            (issue (HostAlloc (unat bytes)) r)\<lparr>host_free := host_free r - unat bytes\<rparr>)
      else (None, issue (HostAlloc (unat bytes)) r))"

text \<open>
  \<open>cublasCreate\<close> and \<open>cusparseCreate\<close> write a handle through their pointer argument
  when they succeed and leave it alone when they fail.
\<close>

definition take_handle :: "cuda_call \<Rightarrow> runtime \<Rightarrow> nat option \<times> runtime" where
  "take_handle c rt =
     (case handle_supply rt of
        [] \<Rightarrow> (None, issue c rt)
      | h # hs \<Rightarrow> ((if h = 0 then None else Some h), (issue c rt)\<lparr>handle_supply := hs\<rparr>))"

definition cublasCreate :: "runtime \<Rightarrow> nat option \<times> runtime" where
  "cublasCreate rt = take_handle CublasCreate rt"

definition cusparseCreate :: "runtime \<Rightarrow> nat option \<times> runtime" where
  "cusparseCreate rt = take_handle CusparseCreate rt"

text \<open>
  Modelled from the spec: \<open>LOG_ONCE\<close> (common/logging.h is not among the source files),
  "a log this message exactly once primitive": each call site logs the first time it is
  reached and never again.
\<close>

definition LOG_ONCE :: "nat \<Rightarrow> string \<Rightarrow> runtime \<Rightarrow> runtime" where
  "LOG_ONCE site msg rt =
     (if site \<in> set (once_done rt) then rt
      else rt\<lparr>logged := logged rt @ [(site, msg)], once_done := site # once_done rt\<rparr>)"

definition fmt_bool :: "bool \<Rightarrow> string" where
  "fmt_bool b = (if b then ''true'' else ''false'')"

section \<open>The device backend (tensors/gpu/backend.h)\<close>

record CudaCompute =
  major :: cint
  minor :: cint

text \<open>
  The state of a \<open>gpu::Backend\<close>. A member the source names \<open>x_\<close> is the field
  \<open>x_m\<close> here (a name cannot end in an underscore); \<open>backend_deviceId_m\<close> is the
  \<open>deviceId_\<close> inherited from the base class. Pointers and handles are numbers.
\<close>

record Backend =
  backend_deviceId_m :: nat
  int8_m :: bool
  alpha_m :: bool
  tensorCore_m :: bool
  fused_m :: bool
  dumpMatrices_m :: bool
  oneGPU :: nat
  zeroGPU :: nat
  cublasHandle_m :: nat
  cusparseHandle_m :: nat
  compute_m :: CudaCompute

type_synonym bstate = "Backend \<times> runtime"

definition setDevice :: "bstate \<Rightarrow> (unit, bstate) outcome" where
  "setDevice s =
     (case s of (b, rt) \<Rightarrow>
        (case cudaSetDevice (backend_deviceId_m b) rt of
           (ok, rt') \<Rightarrow> if ok then Returned () (b, rt') else Aborted CudaError (b, rt')))"

definition synchronize :: "bstate \<Rightarrow> (unit, bstate) outcome" where
  "synchronize s =
     (case s of (b, rt) \<Rightarrow>
        (case cudaStreamSynchronize rt of
           (ok, rt') \<Rightarrow> if ok then Returned () (b, rt') else Aborted CudaError (b, rt')))"

definition getCublasHandle :: "bstate \<Rightarrow> (nat, bstate) outcome" where
  "getCublasHandle s =
     (case s of (b, rt) \<Rightarrow>
        if cublasHandle_m b = 0 then
          (case setDevice (b, rt) of
             Aborted e s' \<Rightarrow> Aborted e s'
           | Returned _ (b1, rt1) \<Rightarrow>
               (case cublasCreate rt1 of
                  (r, rt2) \<Rightarrow>
                    let b2 = (case r of None \<Rightarrow> b1 | Some h \<Rightarrow> b1\<lparr>cublasHandle_m := h\<rparr>);
                        rt3 = issue (CublasSetStream (cublasHandle_m b2)) rt2
                    in Returned (cublasHandle_m b2) (b2, rt3)))
        else Returned (cublasHandle_m b) (b, rt))"

definition getCusparseHandle :: "bstate \<Rightarrow> (nat, bstate) outcome" where
  "getCusparseHandle s =
     (case s of (b, rt) \<Rightarrow>
        if cusparseHandle_m b = 0 then
          (case setDevice (b, rt) of
             Aborted e s' \<Rightarrow> Aborted e s'
           | Returned _ (b1, rt1) \<Rightarrow>
               (case cusparseCreate rt1 of
                  (r, rt2) \<Rightarrow>
                    let b2 = (case r of None \<Rightarrow> b1 | Some h \<Rightarrow> b1\<lparr>cusparseHandle_m := h\<rparr>);
                        rt3 = issue (CusparseSetStream (cusparseHandle_m b2)) rt2
                    in Returned (cusparseHandle_m b2) (b2, rt3)))
        else Returned (cusparseHandle_m b) (b, rt))"

definition getOneGPU :: "bstate \<Rightarrow> (nat, bstate) outcome" where
  "getOneGPU s = Returned (oneGPU (fst s)) s"

definition getZeroGPU :: "bstate \<Rightarrow> (nat, bstate) outcome" where
  "getZeroGPU s = Returned (zeroGPU (fst s)) s"

definition getCudaComputeCapability :: "bstate \<Rightarrow> (CudaCompute, bstate) outcome" where
  "getCudaComputeCapability s = Returned (compute_m (fst s)) s"

definition setInt16 :: "bool \<Rightarrow> bstate \<Rightarrow> (unit, bstate) outcome" where
  "setInt16 optimize s =
     (case s of (b, rt) \<Rightarrow>
        Returned () (b, LOG_ONCE 102 (''setOptimized() not supported for GPU_'' @ fmt_bool optimize) rt))"

definition isInt16 :: "bstate \<Rightarrow> (bool, bstate) outcome" where
  "isInt16 s = Returned False s"

definition setInt8 :: "bool \<Rightarrow> bstate \<Rightarrow> (unit, bstate) outcome" where
  "setInt8 optimize s = (case s of (b, rt) \<Rightarrow> Returned () (b\<lparr>int8_m := optimize\<rparr>, rt))"

definition isInt8 :: "bstate \<Rightarrow> (bool, bstate) outcome" where
  "isInt8 s = Returned (int8_m (fst s)) s"

definition setShifted :: "bool \<Rightarrow> bstate \<Rightarrow> (unit, bstate) outcome" where
  "setShifted shifted s =
     (case s of (b, rt) \<Rightarrow>
        Returned () (b, LOG_ONCE 118 (''setShifted() not supported for GPU_'' @ fmt_bool shifted) rt))"

definition isShifted :: "bstate \<Rightarrow> (bool, bstate) outcome" where
  "isShifted s = Returned False s"

definition setShiftedAll :: "bool \<Rightarrow> bstate \<Rightarrow> (unit, bstate) outcome" where
  "setShiftedAll shiftedAll s =
     (case s of (b, rt) \<Rightarrow>
        Returned () (b, LOG_ONCE 126 (''setShiftedAll() not supported for GPU_'' @ fmt_bool shiftedAll) rt))"

definition isShiftedAll :: "bstate \<Rightarrow> (bool, bstate) outcome" where
  "isShiftedAll s = Returned False s"

definition setDumpQuantMult :: "bool \<Rightarrow> bstate \<Rightarrow> (unit, bstate) outcome" where
  "setDumpQuantMult dump s = (case s of (b, rt) \<Rightarrow> Returned () (b\<lparr>dumpMatrices_m := dump\<rparr>, rt))"

definition DumpQuantMult :: "bstate \<Rightarrow> (bool, bstate) outcome" where
  "DumpQuantMult s = Returned (dumpMatrices_m (fst s)) s"

definition setPrecomputedAlpha :: "bool \<Rightarrow> bstate \<Rightarrow> (unit, bstate) outcome" where
  "setPrecomputedAlpha alpha s = (case s of (b, rt) \<Rightarrow> Returned () (b\<lparr>alpha_m := alpha\<rparr>, rt))"

definition isPrecomputedAlpha :: "bstate \<Rightarrow> (bool, bstate) outcome" where
  "isPrecomputedAlpha s = Returned (alpha_m (fst s)) s"

definition setLegacyBatchedGemm :: "bool \<Rightarrow> bstate \<Rightarrow> (unit, bstate) outcome" where
  "setLegacyBatchedGemm legacyBatch s =
     (case s of (b, rt) \<Rightarrow>
        Returned () (b, LOG_ONCE 149 (''setLegacyBatchedGemm() not supported for GPU_'' @ fmt_bool legacyBatch) rt))"

definition isLegacyBatchedGemm :: "bstate \<Rightarrow> (bool, bstate) outcome" where
  "isLegacyBatchedGemm s = Returned False s"

definition setTensorCoreGemm :: "bool \<Rightarrow> bstate \<Rightarrow> (unit, bstate) outcome" where
  "setTensorCoreGemm tensorCore s =
     (case s of (b, rt) \<Rightarrow>
        if tensorCore then
          (case getCudaComputeCapability (b, rt) of
             Aborted e s' \<Rightarrow> Aborted e s'
           | Returned c (b1, rt1) \<Rightarrow>
               if major c <s 7 then Aborted NoTensorCores (b1, rt1)
               else Returned () (b1\<lparr>tensorCore_m := tensorCore\<rparr>, rt1))
        else Returned () (b, rt))"

definition useTensorCoreGemm :: "bstate \<Rightarrow> (bool, bstate) outcome" where
  "useTensorCoreGemm s = Returned (tensorCore_m (fst s)) s"

definition setFused :: "bool \<Rightarrow> bstate \<Rightarrow> (unit, bstate) outcome" where
  "setFused fused s = (case s of (b, rt) \<Rightarrow> Returned () (b\<lparr>fused_m := fused\<rparr>, rt))"

definition isFused :: "bstate \<Rightarrow> (bool, bstate) outcome" where
  "isFused s = Returned (fused_m (fst s)) s"

text \<open>
  The destructor: binds the device, destroys each handle that was created and resets it
  to null, frees the two constants.
\<close>

definition destroy_Backend :: "bstate \<Rightarrow> (unit, bstate) outcome" where
  "destroy_Backend s =
     (case setDevice s of
        Aborted e s' \<Rightarrow> Aborted e s'
      | Returned _ (b, rt) \<Rightarrow>
          (let (b1, rt1) =
                 (if cusparseHandle_m b \<noteq> 0
                  then (b\<lparr>cusparseHandle_m := 0\<rparr>, issue (CusparseDestroy (cusparseHandle_m b)) rt)
                  else (b, rt));
               (b2, rt2) =
                 (if cublasHandle_m b1 \<noteq> 0
                  then (b1\<lparr>cublasHandle_m := 0\<rparr>, issue (CublasDestroy (cublasHandle_m b1)) rt1)
                  else (b1, rt1))
           in Returned () (b2, issue (Free (zeroGPU b2)) (issue (Free (oneGPU b2)) rt2))))"

text \<open>
  The public methods short of the destructor, as one type of calls, so that a property
  can be stated of every sequence of calls made on a backend during its life. A call's
  returned value is dropped here; an abort ends the sequence.
\<close>

datatype backend_call =
    SetDeviceCall | SynchronizeCall | GetCublasHandle | GetCusparseHandle
  | GetOneGPU | GetZeroGPU | GetCudaComputeCapability
  | SetInt16 bool | IsInt16 | SetInt8 bool | IsInt8
  | SetShifted bool | IsShifted | SetShiftedAll bool | IsShiftedAll
  | SetDumpQuantMult bool | DumpQuantMultCall
  | SetPrecomputedAlpha bool | IsPrecomputedAlpha
  | SetLegacyBatchedGemm bool | IsLegacyBatchedGemm
  | SetTensorCoreGemm bool | UseTensorCoreGemm
  | SetFused bool | IsFused

definition forget :: "('a, 's) outcome \<Rightarrow> (unit, 's) outcome" where
  "forget r = (case r of Returned _ s \<Rightarrow> Returned () s | Aborted e s \<Rightarrow> Aborted e s)"

fun perform :: "backend_call \<Rightarrow> bstate \<Rightarrow> (unit, bstate) outcome" where
  "perform SetDeviceCall s = setDevice s"
| "perform SynchronizeCall s = synchronize s"
| "perform GetCublasHandle s = forget (getCublasHandle s)"
| "perform GetCusparseHandle s = forget (getCusparseHandle s)"
| "perform GetOneGPU s = forget (getOneGPU s)"
| "perform GetZeroGPU s = forget (getZeroGPU s)"
| "perform GetCudaComputeCapability s = forget (getCudaComputeCapability s)"
| "perform (SetInt16 v) s = setInt16 v s"
| "perform IsInt16 s = forget (isInt16 s)"
| "perform (SetInt8 v) s = setInt8 v s"
| "perform IsInt8 s = forget (isInt8 s)"
| "perform (SetShifted v) s = setShifted v s"
| "perform IsShifted s = forget (isShifted s)"
| "perform (SetShiftedAll v) s = setShiftedAll v s"
| "perform IsShiftedAll s = forget (isShiftedAll s)"
| "perform (SetDumpQuantMult v) s = setDumpQuantMult v s"
| "perform DumpQuantMultCall s = forget (DumpQuantMult s)"
| "perform (SetPrecomputedAlpha v) s = setPrecomputedAlpha v s"
| "perform IsPrecomputedAlpha s = forget (isPrecomputedAlpha s)"
| "perform (SetLegacyBatchedGemm v) s = setLegacyBatchedGemm v s"
| "perform IsLegacyBatchedGemm s = forget (isLegacyBatchedGemm s)"
| "perform (SetTensorCoreGemm v) s = setTensorCoreGemm v s"
| "perform UseTensorCoreGemm s = forget (useTensorCoreGemm s)"
| "perform (SetFused v) s = setFused v s"
| "perform IsFused s = forget (isFused s)"

fun perform_all :: "backend_call list \<Rightarrow> bstate \<Rightarrow> (unit, bstate) outcome" where
  "perform_all [] s = Returned () s"
| "perform_all (c # cs) s =
     (case perform c s of
        Aborted e s' \<Rightarrow> Aborted e s'
      | Returned _ s' \<Rightarrow> perform_all cs s')"

definition state_of :: "('a, 's) outcome \<Rightarrow> 's" where
  "state_of r = (case r of Returned _ s \<Rightarrow> s | Aborted _ s \<Rightarrow> s)"

definition aborted :: "('a, 's) outcome \<Rightarrow> bool" where
  "aborted r = (case r of Returned _ _ \<Rightarrow> False | Aborted _ _ \<Rightarrow> True)"

definition verdict :: "('a, 's) outcome \<Rightarrow> abort option" where
  "verdict r = (case r of Returned _ _ \<Rightarrow> None | Aborted e _ \<Rightarrow> Some e)"

text \<open>
  What the claims about the log and the handles speak of: the log is in order when no
  call site has written twice and every site that has written has its flag set;
  \<open>written_by\<close> gives the lines one call site has written.
\<close>

definition log_ok :: "runtime \<Rightarrow> bool" where
  "log_ok rt =
     (distinct (map fst (logged rt)) \<and> list_all (\<lambda>e. fst e \<in> set (once_done rt)) (logged rt))"

definition written_by :: "nat \<Rightarrow> runtime \<Rightarrow> (nat \<times> string) list" where
  "written_by site rt = filter (\<lambda>e. fst e = site) (logged rt)"

section \<open>The selection engine (translator/nth_element.cu)\<close>

text \<open>
  Modelled from the spec: the tensor interface (the tensor, shape and type declarations
  are not among the source files). "A 4-dimensional numeric buffer ..., with the last two
  dimensions semantically [beamsPerBatch, vocabSize] and an outer batch dimension; element
  type is one of two floating-point precisions": \<open>shape()[-4]\<close> is \<open>dim_m4\<close>, and so on
  to \<open>shape()[-1]\<close>, which is \<open>dim_m1\<close>; a dimension is an \<open>int\<close>. \<open>other_type\<close> stands
  for every element type that is neither of the two. The elements are of a type \<open>'v\<close>;
  \<open>elems\<close> is the memory behind the tensor's data pointer, by position in row-major
  order: the code reads it through a raw pointer and never asks for its extent.
\<close>

datatype Type = float32 | float16 | other_type

record Shape =
  dim_m4 :: cint
  dim_m3 :: cint
  dim_m2 :: cint
  dim_m1 :: cint

record 'v Tensor =
  shape :: Shape
  elem_type :: Type
  elems :: "nat \<Rightarrow> 'v"

text \<open>
  Modelled from the spec: \<open>TopK\<close> (3rd_party/topk.cuh is not among the source files),
  "an (index, value) pair: index is the flattened vocabulary position of a candidate,
  value is its score"; the source reads the two as \<open>.p\<close> and \<open>.u\<close>.
\<close>

record 'v TopK =
  p :: cint
  u :: 'v

text \<open>
  The engine: its device, its two maxima and its four buffers. A device buffer is the
  list of its cells. As for the backend, the member \<open>x_\<close> is the field \<open>x_m\<close>.
\<close>

record 'v NthElementGPU =
  deviceId_m :: nat
  maxBeamSize_m :: size_t
  maxBatchSize_m :: size_t
  topk_tmp_id_buf :: "cint list"
  topk_tmp_val_buf :: "'v list"
  tops :: "'v TopK list"
  topsHost :: "'v TopK list"

definition MAX_VOCAB_SIZE :: cint where
  "MAX_VOCAB_SIZE = 500000"

text \<open>
  The buffers have the sizes the source's comments give them, \<open>tops\<close> and \<open>topsHost\<close>
  being \<open>[maxBatchSize, maxBeamSize]\<close>, and a buffer's size fits a \<open>size_t\<close>.
\<close>

definition engine_ok :: "'v NthElementGPU \<Rightarrow> bool" where
  "engine_ok e =
     (length (tops e) = unat (maxBatchSize_m e) * unat (maxBeamSize_m e) \<and>
      length (topsHost e) = unat (maxBatchSize_m e) * unat (maxBeamSize_m e) \<and>
      unat (maxBatchSize_m e) * unat (maxBeamSize_m e) < 2 ^ 64)"

text \<open>
  The two maxima fit an \<open>int\<close>: \<open>selectNBest\<close> hands the batch size and the beam
  width to the kernels as \<open>int\<close>s, and the constructor computes the number of scratch
  elements as one.
\<close>

definition fits_int :: "'v NthElementGPU \<Rightarrow> bool" where
  "fits_int e = (unat (maxBatchSize_m e) < 2 ^ 31 \<and> unat (maxBeamSize_m e) < 2 ^ 31)"

text \<open>
  The constructor. \<open>MAX_BLOCKS_PER_BEAM\<close> and the size of a \<open>TopK\<close> record
  (3rd_party/topk.cuh is not among the source files) are the parameters \<open>nb\<close> and
  \<open>sizeof_TopK\<close>; an \<open>int\<close> and a \<open>float\<close> take 4 bytes. \<open>tempElts\<close> is an
  \<open>int\<close>, computed in \<open>size_t\<close> and cut to 32 bits, and converted back for the byte
  counts. Each failed allocation aborts.
\<close>

definition new_NthElementGPU ::
  "nat \<Rightarrow> nat \<Rightarrow> (nat \<Rightarrow> cint) \<Rightarrow> (nat \<Rightarrow> 'v) \<Rightarrow> (nat \<Rightarrow> 'v TopK) \<Rightarrow> size_t \<Rightarrow> size_t \<Rightarrow> nat \<Rightarrow> runtime
     \<Rightarrow> ('v NthElementGPU, runtime) outcome" where
  "new_NthElementGPU nb sizeof_TopK junk_id junk_val junk_top maxBeamSize maxBatchSize deviceId r =
     (let r0 = snd (cudaSetDevice deviceId r);
          tempElts = (ucast (maxBatchSize * maxBeamSize * maxBeamSize * of_nat nb) :: cint)
      in case cudaMalloc 4 junk_id (scast tempElts * 4) r0 of
           (None, r1) \<Rightarrow> Aborted CudaError r1
         | (Some ids, r1) \<Rightarrow>
        (case cudaMalloc 4 junk_val (scast tempElts * 4) r1 of
           (None, r2) \<Rightarrow> Aborted CudaError r2
         | (Some vals, r2) \<Rightarrow>
        (case cudaMalloc sizeof_TopK junk_top (maxBatchSize * maxBeamSize * of_nat sizeof_TopK) r2 of
           (None, r3) \<Rightarrow> Aborted CudaError r3
         | (Some tps, r3) \<Rightarrow>
        (case cudaHostAlloc sizeof_TopK junk_top (maxBeamSize * maxBatchSize * of_nat sizeof_TopK) r3 of
           (None, r4) \<Rightarrow> Aborted CudaError r4
         | (Some host, r4) \<Rightarrow>
             Returned \<lparr>deviceId_m = deviceId, maxBeamSize_m = maxBeamSize,
                        maxBatchSize_m = maxBatchSize, topk_tmp_id_buf = ids,
                        topk_tmp_val_buf = vals, tops = tps, topsHost = host\<rparr> r4))))"

text \<open>
  A call works on the engine, the two output vectors (passed by reference) and the
  runtime.
\<close>

record 'v call_state =
  eng :: "'v NthElementGPU"
  outCosts :: "'v list"
  outKeys :: "unsigned list"
  rt :: runtime

text \<open>
  \<open>topK_kernelLauncher\<close> is not among the source files: the engine's operations take
  it as a parameter, a function from the scores, the three device buffers it is handed
  and its four sizes to the new contents of the three buffers.
\<close>

type_synonym 'v launcher =
  "(nat \<Rightarrow> 'v) \<Rightarrow> cint list \<Rightarrow> 'v list \<Rightarrow> 'v TopK list \<Rightarrow> cint \<Rightarrow> cint \<Rightarrow> cint \<Rightarrow> cint
     \<Rightarrow> cint list \<times> 'v list \<times> 'v TopK list"

text \<open>A kernel writes into the result buffer it is given; it cannot resize it.\<close>

definition keeps_size :: "'v launcher \<Rightarrow> bool" where
  "keeps_size L =
     (\<forall>probs ids vals tps batchSize beamsPerBatch beamWidth vocabSize.
        length (snd (snd (L probs ids vals tps batchSize beamsPerBatch beamWidth vocabSize)))
          = length tps)"

definition set_device :: "'v call_state \<Rightarrow> 'v call_state" where
  "set_device st = st\<lparr>rt := snd (cudaSetDevice (deviceId_m (eng st)) (rt st))\<rparr>"

definition selectNBest ::
  "'v launcher \<Rightarrow> (nat \<Rightarrow> 'v) \<Rightarrow> cint \<Rightarrow> cint \<Rightarrow> cint \<Rightarrow> cint \<Rightarrow> 'v call_state \<Rightarrow> 'v call_state" where
  "selectNBest L probs batchSize beamsPerBatch beamWidth vocabSize st =
     (let st1 = set_device st;
          e = eng st1
      in case L probs (topk_tmp_id_buf e) (topk_tmp_val_buf e) (tops e)
                batchSize beamsPerBatch beamWidth vocabSize of
           (ids, vals, tps) \<Rightarrow>
             st1\<lparr>eng := e\<lparr>topk_tmp_id_buf := ids, topk_tmp_val_buf := vals, tops := tps\<rparr>,
                 rt := issue KernelLaunch (rt st1)\<rparr>)"

text \<open>
  \<open>cudaMemcpyAsync\<close>, device to host, of \<open>n\<close> records: it fails when either buffer holds
  fewer than \<open>n\<close> records or the runtime has an error to report, and otherwise overwrites
  the first \<open>n\<close> records of the destination.
\<close>

definition cudaMemcpyAsync ::
  "'a list \<Rightarrow> 'a list \<Rightarrow> nat \<Rightarrow> runtime \<Rightarrow> bool \<times> 'a list \<times> runtime" where
  "cudaMemcpyAsync dst src n r =
     (if n \<le> length src \<and> n \<le> length dst \<and> MemcpyDeviceToHost n \<notin> set (failing r)
      then (True, take n src @ drop n dst, issue (MemcpyDeviceToHost n) r)
      else (False, dst, issue (MemcpyDeviceToHost n) r))"

text \<open>
  The runtime has an error to report at the copy of \<open>n\<close> records or at the
  synchronization after it.
\<close>

definition reports_error :: "nat \<Rightarrow> runtime \<Rightarrow> bool" where
  "reports_error n r =
     (MemcpyDeviceToHost n \<in> set (failing r) \<or> StreamSynchronize \<in> set (failing r))"

text \<open>The loop of \<open>getPairs\<close>, from index \<open>i\<close> on.\<close>

function push_pairs ::
  "'v TopK list \<Rightarrow> nat \<Rightarrow> nat \<Rightarrow> unsigned list \<Rightarrow> 'v list \<Rightarrow> unsigned list \<times> 'v list" where
  "push_pairs host i numElts ks vs =
     (if i < numElts
      then push_pairs host (Suc i) numElts (ks @ [p (host ! i)]) (vs @ [u (host ! i)])
      else (ks, vs))"
  by pat_completeness auto
termination
  by (relation "measure (\<lambda>(host, i, numElts, ks, vs). numElts - i)") auto

declare push_pairs.simps [simp del]

definition getPairs :: "size_t \<Rightarrow> 'v call_state \<Rightarrow> (unit, 'v call_state) outcome" where
  "getPairs numElts st =
     (let st1 = set_device st;
          e = eng st1
      in case cudaMemcpyAsync (topsHost e) (tops e) (unat numElts) (rt st1) of
           (ok, host, r2) \<Rightarrow>
             let st2 = st1\<lparr>eng := e\<lparr>topsHost := host\<rparr>, rt := r2\<rparr>
             in if \<not> ok then Aborted CudaError st2
                else (case cudaStreamSynchronize r2 of
                        (ok3, r3) \<Rightarrow>
                          let st3 = st2\<lparr>rt := r3\<rparr>
                          in if \<not> ok3 then Aborted CudaError st3
                             else (case push_pairs host 0 (unat numElts) (outKeys st3) (outCosts st3) of
                                     (ks, vs) \<Rightarrow> Returned () (st3\<lparr>outKeys := ks, outCosts := vs\<rparr>))))"

text \<open>
  \<open>getNBestList\<close>. \<open>fp_half\<close> is the compile-time switch \<open>COMPILE_FP16\<close>. The comparisons
  are the C++ ones: \<open>inputN\<close> and \<open>dimBatch\<close> are converted to \<open>size_t\<close> where the other
  operand is one, the vocabulary sizes are compared as \<open>int\<close>s, and \<open>N\<close> is converted to
  \<open>int\<close> for the kernel. A vector's size is compared as the number it is.
\<close>

definition getNBestList ::
  "'v launcher \<Rightarrow> bool \<Rightarrow> 'v Tensor \<Rightarrow> size_t \<Rightarrow> bool \<Rightarrow> 'v call_state \<Rightarrow> (unit, 'v call_state) outcome" where
  "getNBestList L fp_half scores N isFirst st =
     (let st1 = set_device st;
          vocabSize = dim_m1 (shape scores);
          inputN = dim_m2 (shape scores);
          dimBatch = dim_m4 (shape scores)
      in if scast inputN \<noteq> (if isFirst then 1 else N) then Aborted WrongBeamDim st1
         else if MAX_VOCAB_SIZE <s vocabSize then Aborted VocabTooLarge st1
         else if maxBatchSize_m (eng st1) < scast dimBatch then Aborted BatchTooLarge st1
         else if maxBeamSize_m (eng st1) < max N (scast inputN) then Aborted BeamTooLarge st1
         else
           (case (if elem_type scores = float32
                  then Returned () (selectNBest L (elems scores) dimBatch inputN (ucast N) vocabSize st1)
                  else if fp_half \<and> elem_type scores = float16
                  then Returned () (selectNBest L (elems scores) dimBatch inputN (ucast N) vocabSize st1)
                  else Aborted TypeNotImplemented st1) of
              Aborted e s \<Rightarrow> Aborted e s
            | Returned _ st2 \<Rightarrow>
                (case getPairs (scast dimBatch * N) st2 of
                   Aborted e s \<Rightarrow> Aborted e s
                 | Returned _ st3 \<Rightarrow>
                     if length (outKeys st3) \<noteq> unat (scast dimBatch * N :: size_t)
                     then Aborted WrongResultCount st3
                     else Returned () st3)))"

text \<open>The element types \<open>getNBestList\<close> has a code path for.\<close>

definition supported :: "bool \<Rightarrow> Type \<Rightarrow> bool" where
  "supported fp_half ty = (ty = float32 \<or> (fp_half \<and> ty = float16))"

section \<open>The reduction kernels\<close>

text \<open>
  Modelled from the spec: \<open>topK_kernelLauncher\<close> and \<open>MAX_BLOCKS_PER_BEAM\<close>
  (3rd_party/topk.cuh is not among the source files). "Stage 1 partitions each row's
  vocabulary range across a bounded number of reduction blocks per beam row
  (MAX_BLOCKS_PER_BEAM), each block computing its local top-K candidates (value, index)
  independently and writing them into the temporary index/value buffers; stage 2 merges
  the per-block partial results for each row into the row's final top-N record, written
  into the device result buffer", in "device-buffer order (row-major: batch-major, then
  beam-rank-within-row, where rank ordering is score-descending)".

  The spec fixes neither the number of blocks nor which block scans which vocabulary
  position: \<open>nb\<close> is the number of blocks per beam row and \<open>part v\<close> the block that
  scans position \<open>v\<close>. A row of results is a batch entry: its \<open>beams\<close> beam rows of
  \<open>vocab\<close> scores each, at the tensor positions from \<open>b * beams * vocab\<close> on. A
  candidate is a pair of an index and a score, the index being "the flattened vocabulary
  position", counted within the batch entry as in the spec's scenario (whose second row
  has the keys 2, 4 and 0 or 1): \<open>j * vocab + v\<close> for position \<open>v\<close> of beam row \<open>j\<close>.
  Scores are compared by a linear order.

  The results of batch entry \<open>b\<close> are the \<open>K\<close> records from \<open>b * K\<close> on, its candidates
  in rank order. A call is to leave no trace of earlier calls in what it returns ("no
  cross-call state bleed despite shared scratch buffers"), so each of these slots is
  written: one for which there is no candidate, the batch entry holding fewer than \<open>K\<close>
  scores, receives the record \<open>blank\<close>, which the spec does not fix.
\<close>

definition descending :: "(nat \<times> 'v::linorder) list \<Rightarrow> (nat \<times> 'v) list" where
  "descending xs = rev (sort_key snd xs)"

definition local_topk :: "nat \<Rightarrow> (nat \<times> 'v::linorder) list \<Rightarrow> (nat \<times> 'v) list" where
  "local_topk K xs = take K (descending xs)"

definition block_share ::
  "(nat \<Rightarrow> 'v) \<Rightarrow> (nat \<Rightarrow> nat) \<Rightarrow> nat \<Rightarrow> nat \<Rightarrow> nat \<Rightarrow> nat \<Rightarrow> (nat \<times> 'v) list" where
  "block_share probs part vocab base j lane =
     map (\<lambda>v. (j * vocab + v, probs (base + (j * vocab + v))))
         (filter (\<lambda>v. part v = lane) [0..<vocab])"

definition grid_blocks ::
  "(nat \<Rightarrow> 'v) \<Rightarrow> nat \<Rightarrow> (nat \<Rightarrow> nat) \<Rightarrow> nat \<Rightarrow> nat \<Rightarrow> nat \<Rightarrow> (nat \<times> 'v) list list" where
  "grid_blocks probs nb part beams vocab b =
     concat (map (\<lambda>j. map (\<lambda>lane. block_share probs part vocab (b * beams * vocab) j lane) [0..<nb])
                 [0..<beams])"

definition stage1 :: "nat \<Rightarrow> (nat \<times> 'v::linorder) list list \<Rightarrow> (nat \<times> 'v) list list" where
  "stage1 K blocks = map (local_topk K) blocks"

definition stage2 :: "nat \<Rightarrow> (nat \<times> 'v::linorder) list list \<Rightarrow> (nat \<times> 'v) list" where
  "stage2 K partials = local_topk K (concat partials)"

definition batch_topk ::
  "(nat \<Rightarrow> 'v::linorder) \<Rightarrow> nat \<Rightarrow> (nat \<Rightarrow> nat) \<Rightarrow> nat \<Rightarrow> nat \<Rightarrow> nat \<Rightarrow> nat \<Rightarrow> (nat \<times> 'v) list" where
  "batch_topk probs nb part beams vocab K b =
     stage2 K (stage1 K (grid_blocks probs nb part beams vocab b))"

definition write_tmp ::
  "(nat \<Rightarrow> (nat \<times> 'v) list list) \<Rightarrow> nat \<Rightarrow> nat \<Rightarrow> nat \<Rightarrow> ((nat \<times> 'v) \<Rightarrow> 'a) \<Rightarrow> 'a list \<Rightarrow> 'a list" where
  "write_tmp partials batch per_batch K f buf =
     map (\<lambda>i. let g = i div K; r = i mod K; b = g div per_batch; k = g mod per_batch
               in if 0 < K \<and> 0 < per_batch \<and> b < batch \<and> k < length (partials b)
                     \<and> r < length (partials b ! k)
                  then f (partials b ! k ! r) else buf ! i)
         [0..<length buf]"

definition write_tops ::
  "(nat \<Rightarrow> (nat \<times> 'v) list) \<Rightarrow> nat \<Rightarrow> nat \<Rightarrow> 'v TopK \<Rightarrow> 'v TopK list \<Rightarrow> 'v TopK list" where
  "write_tops res batch K blank tps =
     map (\<lambda>i. let b = i div K; r = i mod K
               in if 0 < K \<and> b < batch
                  then (if r < length (res b)
                        then \<lparr>p = of_nat (fst (res b ! r)), u = snd (res b ! r)\<rparr> else blank)
                  else tps ! i)
         [0..<length tps]"

definition topK_kernelLauncher ::
  "nat \<Rightarrow> (nat \<Rightarrow> nat) \<Rightarrow> 'v TopK \<Rightarrow> ('v::linorder) launcher" where
  "topK_kernelLauncher nb part blank probs ids vals tps batchSize beamsPerBatch beamWidth vocabSize =
     (let batch = nat (sint batchSize);
          beams = nat (sint beamsPerBatch);
          K = nat (sint beamWidth);
          vocab = nat (sint vocabSize);
          partials = (\<lambda>b. stage1 K (grid_blocks probs nb part beams vocab b));
          res = (\<lambda>b. stage2 K (partials b))
      in (write_tmp partials batch (beams * nb) K (\<lambda>c. of_nat (fst c)) ids,
          write_tmp partials batch (beams * nb) K snd vals,
          write_tops res batch K blank tps))"

text \<open>
  Two states of one engine, whatever its buffers hold: the engine has its two maxima and
  the runtime the errors it will report.
\<close>

definition same_engine :: "'v call_state \<Rightarrow> 'v call_state \<Rightarrow> bool" where
  "same_engine sa sb =
     (maxBatchSize_m (eng sa) = maxBatchSize_m (eng sb) \<and>
      maxBeamSize_m (eng sa) = maxBeamSize_m (eng sb) \<and>
      failing (rt sa) = failing (rt sb))"

text \<open>
  What a caller does with an engine: a sequence of calls, each with its tensor, its \<open>N\<close>,
  its \<open>isFirst\<close> and the two vectors it hands over. \<open>make_calls\<close> is the state the
  calls leave, made one after the other.
\<close>

record 'v call =
  call_scores :: "'v Tensor"
  call_N :: size_t
  call_isFirst :: bool
  call_keys :: "unsigned list"
  call_costs :: "'v list"

definition make_call :: "'v launcher \<Rightarrow> bool \<Rightarrow> 'v call \<Rightarrow> 'v call_state \<Rightarrow> 'v call_state" where
  "make_call L fp_half c st =
     state_of (getNBestList L fp_half (call_scores c) (call_N c) (call_isFirst c)
                 (st\<lparr>outCosts := call_costs c, outKeys := call_keys c\<rparr>))"

definition make_calls ::
  "'v launcher \<Rightarrow> bool \<Rightarrow> 'v call list \<Rightarrow> 'v call_state \<Rightarrow> 'v call_state" where
  "make_calls L fp_half cs st = foldl (\<lambda>s c. make_call L fp_half c s) st cs"

section \<open>Concrete states\<close>

text \<open>
  A backend on device 0 of compute capability 7.5 (and one of capability 6.1) with
  neither handle created, and a runtime with one device whose libraries will hand out
  the handles 5 and 9.
\<close>

definition backend0 :: Backend where
  "backend0 = \<lparr>backend_deviceId_m = 0, int8_m = False, alpha_m = False, tensorCore_m = False,
     fused_m = False, dumpMatrices_m = False, oneGPU = 4096, zeroGPU = 4100,
     cublasHandle_m = 0, cusparseHandle_m = 0, compute_m = \<lparr>major = 7, minor = 5\<rparr>\<rparr>"

definition backend_old :: Backend where
  "backend_old = backend0\<lparr>compute_m := \<lparr>major = 6, minor = 1\<rparr>\<rparr>"

definition runtime0 :: runtime where
  "runtime0 = \<lparr>device_count = 1, current_device = 0, device_free = 4096, host_free = 4096,
     calls = [], failing = [], handle_supply = [5, 9],
     logged = [], once_done = []\<rparr>"

text \<open>
  The scenario of the spec, with the scores times 100: two batch entries, one beam row
  each, a vocabulary of 5, \<open>N = 3\<close>; an engine for at most 2 batch entries and 3 beams;
  kernels with two blocks per beam row, position \<open>v\<close> scanned by block \<open>v mod 2\<close>,
  and the index \<open>-1\<close> with the score \<open>-1000\<close> as the blank record.
\<close>

definition scores0 :: "int Tensor" where
  "scores0 = \<lparr>shape = \<lparr>dim_m4 = 2, dim_m3 = 1, dim_m2 = 1, dim_m1 = 5\<rparr>, elem_type = float32,
     elems = (\<lambda>i. if i < 10 then [10, 90, 30, 5, 40, 20, 20, 80, 10, 60] ! i else 0)\<rparr>"

definition engine0 :: "int NthElementGPU" where
  "engine0 = \<lparr>deviceId_m = 0, maxBeamSize_m = 3, maxBatchSize_m = 2,
     topk_tmp_id_buf = replicate 36 0, topk_tmp_val_buf = replicate 36 0,
     tops = replicate 6 \<lparr>p = 0, u = 0\<rparr>, topsHost = replicate 6 \<lparr>p = 0, u = 0\<rparr>\<rparr>"

definition state0 :: "int call_state" where
  "state0 = \<lparr>eng = engine0, outCosts = [], outKeys = [], rt = runtime0\<rparr>"

definition kernel0 :: "int launcher" where
  "kernel0 = topK_kernelLauncher 2 (\<lambda>v. v mod 2) \<lparr>p = - 1, u = - 1000\<rparr>"

text \<open>Tensors of one batch entry and one beam row over a vocabulary of a given size.\<close>

definition wide_scores :: "cint \<Rightarrow> Type \<Rightarrow> int Tensor" where
  "wide_scores vocabSize ty =
     \<lparr>shape = \<lparr>dim_m4 = 1, dim_m3 = 1, dim_m2 = 1, dim_m1 = vocabSize\<rparr>, elem_type = ty,
      elems = (\<lambda>i. 0)\<rparr>"

text \<open>A tensor of one batch entry and one beam row over a vocabulary of 2.\<close>

definition short_scores :: "int Tensor" where
  "short_scores = \<lparr>shape = \<lparr>dim_m4 = 1, dim_m3 = 1, dim_m2 = 1, dim_m1 = 2\<rparr>,
     elem_type = float32, elems = (\<lambda>i. if i = 0 then - 5 else - 7)\<rparr>"


text \<open>
  The state a call on the tensor of one short row leaves, from the first state of the
  scenario.
\<close>

definition short_result :: "int call_state" where
  "short_result = \<lparr>eng = \<lparr>deviceId_m = 0, maxBeamSize_m = 3, maxBatchSize_m = 2,
        topk_tmp_id_buf = [0, 0, 0, 1] @ replicate 32 0,
        topk_tmp_val_buf = [- 5, 0, 0, - 7] @ replicate 32 0,
        tops = [\<lparr>p = 0, u = - 5\<rparr>, \<lparr>p = 1, u = - 7\<rparr>, \<lparr>p = - 1, u = - 1000\<rparr>,
                \<lparr>p = 0, u = 0\<rparr>, \<lparr>p = 0, u = 0\<rparr>, \<lparr>p = 0, u = 0\<rparr>],
        topsHost = [\<lparr>p = 0, u = - 5\<rparr>, \<lparr>p = 1, u = - 7\<rparr>, \<lparr>p = - 1, u = - 1000\<rparr>,
                    \<lparr>p = 0, u = 0\<rparr>, \<lparr>p = 0, u = 0\<rparr>, \<lparr>p = 0, u = 0\<rparr>]\<rparr>,
     outCosts = [- 5, - 7, - 1000], outKeys = [0, 1, - 1],
     rt = runtime0\<lparr>calls := [SetDevice 0, SetDevice 0, KernelLaunch, SetDevice 0,
                               MemcpyDeviceToHost 3, StreamSynchronize]\<rparr>\<rparr>"

section \<open>The backend's capability flags\<close>

lemmas backend_defs = setDevice_def synchronize_def getCublasHandle_def getCusparseHandle_def
  getOneGPU_def getZeroGPU_def getCudaComputeCapability_def setInt16_def isInt16_def setInt8_def
  isInt8_def setShifted_def isShifted_def setShiftedAll_def isShiftedAll_def setDumpQuantMult_def
  DumpQuantMult_def setPrecomputedAlpha_def isPrecomputedAlpha_def setLegacyBatchedGemm_def
  isLegacyBatchedGemm_def setTensorCoreGemm_def useTensorCoreGemm_def setFused_def isFused_def
  forget_def state_of_def cudaSetDevice_def cudaStreamSynchronize_def cublasCreate_def
  cusparseCreate_def take_handle_def issue_def LOG_ONCE_def

text \<open>
  C6. \<open>setTensorCoreGemm(true)\<close> aborts when the cached compute capability's major
  version is below 7, leaving everything as it was; from 7 on it returns, and
  \<open>useTensorCoreGemm()\<close> then returns true.
\<close>

theorem setTensorCoreGemm_true:
  "(sint (major (compute_m b)) < 7 \<longrightarrow>
      setTensorCoreGemm True (b, r) = Aborted NoTensorCores (b, r)) \<and>
   (7 \<le> sint (major (compute_m b)) \<longrightarrow>
      setTensorCoreGemm True (b, r) = Returned () (b\<lparr>tensorCore_m := True\<rparr>, r) \<and>
      useTensorCoreGemm (b\<lparr>tensorCore_m := True\<rparr>, r)
        = Returned True (b\<lparr>tensorCore_m := True\<rparr>, r))"
  by (simp add: setTensorCoreGemm_def getCudaComputeCapability_def useTensorCoreGemm_def
      word_sless_alt)

theorem setTensorCoreGemm_true_witness:
  "setTensorCoreGemm True (backend_old, runtime0) = Aborted NoTensorCores (backend_old, runtime0) \<and>
   setTensorCoreGemm True (backend0, runtime0) = Returned () (backend0\<lparr>tensorCore_m := True\<rparr>, runtime0) \<and>
   useTensorCoreGemm (backend0\<lparr>tensorCore_m := True\<rparr>, runtime0)
     = Returned True (backend0\<lparr>tensorCore_m := True\<rparr>, runtime0)"
  using setTensorCoreGemm_true [of backend_old runtime0] setTensorCoreGemm_true [of backend0 runtime0]
  by (simp add: backend0_def backend_old_def)

text \<open>
  C9. \<open>setTensorCoreGemm(false)\<close> returns and changes nothing, in the backend or in the
  runtime (no call is issued, nothing is logged): \<open>useTensorCoreGemm()\<close> returns what it
  returned before, so the flag, once set, is not cleared.
\<close>

theorem setTensorCoreGemm_false:
  "setTensorCoreGemm False s = Returned () s \<and>
   useTensorCoreGemm (state_of (setTensorCoreGemm False s)) = useTensorCoreGemm s"
  by (cases s) (simp add: setTensorCoreGemm_def state_of_def)

subsection \<open>Logging once\<close>

lemma state_of_perform_all_Cons:
  "state_of (perform_all (c # cs) s) =
     (if aborted (perform c s) then state_of (perform c s)
      else state_of (perform_all cs (state_of (perform c s))))"
  by (cases "perform c s") (simp_all add: state_of_def aborted_def)

lemma perform_log_ok:
  "log_ok r \<Longrightarrow> log_ok (snd (state_of (perform c (b, r))))"
  by (cases c)
    (auto simp: backend_defs log_ok_def Let_def list_all_iff split: list.splits option.splits)

lemma perform_all_log_ok:
  "log_ok r \<Longrightarrow> log_ok (snd (state_of (perform_all cs (b, r))))"
proof (induction cs arbitrary: b r)
  case Nil
  then show ?case by (simp add: state_of_def)
next
  case (Cons c cs)
  obtain b' r' where s': "state_of (perform c (b, r)) = (b', r')"
    by (cases "state_of (perform c (b, r))")
  from perform_log_ok [OF Cons.prems, of c b] s' have ok: "log_ok r'" by simp
  from Cons.IH [OF ok, of b'] ok s' show ?case
    by (simp add: state_of_perform_all_Cons del: perform_all.simps)
qed

lemma distinct_fst_filter_le1:
  "distinct (map fst xs) \<Longrightarrow> length (filter (\<lambda>e. fst e = k) xs) \<le> Suc 0"
proof (induction xs)
  case Nil
  then show ?case by simp
next
  case (Cons x xs)
  show ?case
  proof (cases "fst x = k")
    case True
    with Cons.prems have "\<forall>e\<in>set xs. fst e \<noteq> k"
      by (auto simp: image_iff)
    then have "filter (\<lambda>e. fst e = k) xs = []"
      by (simp add: filter_empty_conv)
    with True show ?thesis by simp
  next
    case False
    with Cons show ?thesis by simp
  qed
qed

lemma log_ok_written_by: "log_ok r \<Longrightarrow> length (written_by site r) \<le> 1"
  using distinct_fst_filter_le1 [of "logged r" site] by (simp add: log_ok_def written_by_def)

text \<open>
  C8. Each of \<open>setInt16\<close>, \<open>setShifted\<close>, \<open>setShiftedAll\<close> and \<open>setLegacyBatchedGemm\<close>
  returns, whatever its argument, and leaves the backend as it was; all it does is
  \<open>LOG_ONCE\<close> at its own call site. Each getter returns false in every state, hence
  after any calls. And however many calls of whatever methods are made on a backend,
  starting with a log that is in order, no call site has written more than one line.
\<close>

theorem unsupported_features:
  assumes "log_ok r"
  shows "setInt16 v (b, r)
           = Returned () (b, LOG_ONCE 102 (''setOptimized() not supported for GPU_'' @ fmt_bool v) r) \<and>
         setShifted v (b, r)
           = Returned () (b, LOG_ONCE 118 (''setShifted() not supported for GPU_'' @ fmt_bool v) r) \<and>
         setShiftedAll v (b, r)
           = Returned () (b, LOG_ONCE 126 (''setShiftedAll() not supported for GPU_'' @ fmt_bool v) r) \<and>
         setLegacyBatchedGemm v (b, r)
           = Returned () (b, LOG_ONCE 149 (''setLegacyBatchedGemm() not supported for GPU_'' @ fmt_bool v) r) \<and>
         isInt16 s = Returned False s \<and> isShifted s = Returned False s \<and>
         isShiftedAll s = Returned False s \<and> isLegacyBatchedGemm s = Returned False s \<and>
         LOG_ONCE site m' (LOG_ONCE site m r) = LOG_ONCE site m r \<and>
         length (written_by site (snd (state_of (perform_all cs (b, r))))) \<le> 1"
proof -
  have "length (written_by site (snd (state_of (perform_all cs (b, r))))) \<le> 1"
    using perform_all_log_ok [OF assms] by (rule log_ok_written_by)
  then show ?thesis
    by (simp add: setInt16_def setShifted_def setShiftedAll_def setLegacyBatchedGemm_def
        isInt16_def isShifted_def isShiftedAll_def isLegacyBatchedGemm_def LOG_ONCE_def)
qed

theorem unsupported_features_witness:
  "state_of (perform_all [SetInt16 True, SetShifted False, SetInt16 False, IsInt16, SetInt16 True]
       (backend0, runtime0))
     = (backend0, runtime0\<lparr>logged := [(102, ''setOptimized() not supported for GPU_true''),
                                       (118, ''setShifted() not supported for GPU_false'')],
                           once_done := [118, 102]\<rparr>) \<and>
   length (written_by 102 (snd (state_of (perform_all
       [SetInt16 True, SetShifted False, SetInt16 False, IsInt16, SetInt16 True]
       (backend0, runtime0))))) \<le> 1"
proof -
  have ok: "log_ok runtime0" by (simp add: log_ok_def runtime0_def)
  have once: "length (written_by 102 (snd (state_of (perform_all
       [SetInt16 True, SetShifted False, SetInt16 False, IsInt16, SetInt16 True]
       (backend0, runtime0))))) \<le> 1"
    using unsupported_features [OF ok, of True backend0 "(backend0, runtime0)" 102 "[]" "[]"
      "[SetInt16 True, SetShifted False, SetInt16 False, IsInt16, SetInt16 True]"]
    by (elim conjE)
  have "state_of (perform_all [SetInt16 True, SetShifted False, SetInt16 False, IsInt16, SetInt16 True]
       (backend0, runtime0))
     = (backend0, runtime0\<lparr>logged := [(102, ''setOptimized() not supported for GPU_true''),
                                       (118, ''setShifted() not supported for GPU_false'')],
                           once_done := [118, 102]\<rparr>)"
    by (simp add: backend_defs fmt_bool_def runtime0_def)
  with once show ?thesis by (intro conjI)
qed

section \<open>The lazily created library handles\<close>

lemma perform_cublas_latch:
  "cublasHandle_m b \<noteq> 0 \<Longrightarrow>
   cublasHandle_m (fst (state_of (perform c (b, r)))) = cublasHandle_m b \<and>
   count_list (calls (snd (state_of (perform c (b, r))))) CublasCreate
     = count_list (calls r) CublasCreate"
  by (cases c) (auto simp: backend_defs Let_def split: list.splits option.splits)

lemma perform_cusparse_latch:
  "cusparseHandle_m b \<noteq> 0 \<Longrightarrow>
   cusparseHandle_m (fst (state_of (perform c (b, r)))) = cusparseHandle_m b \<and>
   count_list (calls (snd (state_of (perform c (b, r))))) CusparseCreate
     = count_list (calls r) CusparseCreate"
  by (cases c) (auto simp: backend_defs Let_def split: list.splits option.splits)

lemma perform_all_cublas_latch:
  "cublasHandle_m b \<noteq> 0 \<Longrightarrow>
   cublasHandle_m (fst (state_of (perform_all cs (b, r)))) = cublasHandle_m b \<and>
   count_list (calls (snd (state_of (perform_all cs (b, r))))) CublasCreate
     = count_list (calls r) CublasCreate"
proof (induction cs arbitrary: b r)
  case Nil
  then show ?case by (simp add: state_of_def)
next
  case (Cons c cs)
  obtain b' r' where s': "state_of (perform c (b, r)) = (b', r')"
    by (cases "state_of (perform c (b, r))")
  from perform_cublas_latch [OF Cons.prems, of c r] s'
  have step: "cublasHandle_m b' = cublasHandle_m b"
    "count_list (calls r') CublasCreate = count_list (calls r) CublasCreate"
    by simp_all
  then have "cublasHandle_m b' \<noteq> 0" using Cons.prems by simp
  from Cons.IH [OF this, of r'] step s' show ?case
    by (simp add: state_of_perform_all_Cons del: perform_all.simps)
qed

lemma perform_all_cusparse_latch:
  "cusparseHandle_m b \<noteq> 0 \<Longrightarrow>
   cusparseHandle_m (fst (state_of (perform_all cs (b, r)))) = cusparseHandle_m b \<and>
   count_list (calls (snd (state_of (perform_all cs (b, r))))) CusparseCreate
     = count_list (calls r) CusparseCreate"
proof (induction cs arbitrary: b r)
  case Nil
  then show ?case by (simp add: state_of_def)
next
  case (Cons c cs)
  obtain b' r' where s': "state_of (perform c (b, r)) = (b', r')"
    by (cases "state_of (perform c (b, r))")
  from perform_cusparse_latch [OF Cons.prems, of c r] s'
  have step: "cusparseHandle_m b' = cusparseHandle_m b"
    "count_list (calls r') CusparseCreate = count_list (calls r) CusparseCreate"
    by simp_all
  then have "cusparseHandle_m b' \<noteq> 0" using Cons.prems by simp
  from Cons.IH [OF this, of r'] step s' show ?case
    by (simp add: state_of_perform_all_Cons del: perform_all.simps)
qed

lemma getCublasHandle_first:
  "cublasHandle_m b = 0 \<Longrightarrow> backend_deviceId_m b < device_count r \<Longrightarrow>
   handle_supply r = h # hs \<Longrightarrow> h \<noteq> 0 \<Longrightarrow>
   getCublasHandle (b, r) =
     Returned h (b\<lparr>cublasHandle_m := h\<rparr>,
       r\<lparr>current_device := backend_deviceId_m b,
          calls := calls r @ [SetDevice (backend_deviceId_m b), CublasCreate, CublasSetStream h],
          handle_supply := hs\<rparr>)"
  by (simp add: backend_defs)

lemma getCusparseHandle_first:
  "cusparseHandle_m b = 0 \<Longrightarrow> backend_deviceId_m b < device_count r \<Longrightarrow>
   handle_supply r = h # hs \<Longrightarrow> h \<noteq> 0 \<Longrightarrow>
   getCusparseHandle (b, r) =
     Returned h (b\<lparr>cusparseHandle_m := h\<rparr>,
       r\<lparr>current_device := backend_deviceId_m b,
          calls := calls r @ [SetDevice (backend_deviceId_m b), CusparseCreate, CusparseSetStream h],
          handle_supply := hs\<rparr>)"
  by (simp add: backend_defs)

text \<open>
  C7. For the dense and for the sparse library alike: when the handle is null, the
  device exists and the library hands out the handle \<open>h\<close>, the getter binds the device,
  creates the handle, binds it to the per-thread stream, stores it and returns it. When
  the handle is not null, the getter returns it and does nothing else; and whatever
  calls of whatever methods short of the destructor follow, the handle stays the same
  and no further handle of that library is created.
\<close>

theorem math_handles_latch:
  "(cublasHandle_m b = 0 \<and> backend_deviceId_m b < device_count r \<and>
      handle_supply r = h # hs \<and> h \<noteq> 0 \<longrightarrow>
      getCublasHandle (b, r) =
        Returned h (b\<lparr>cublasHandle_m := h\<rparr>,
          r\<lparr>current_device := backend_deviceId_m b,
             calls := calls r @ [SetDevice (backend_deviceId_m b), CublasCreate, CublasSetStream h],
             handle_supply := hs\<rparr>)) \<and>
   (cublasHandle_m b \<noteq> 0 \<longrightarrow>
      getCublasHandle (b, r) = Returned (cublasHandle_m b) (b, r) \<and>
      cublasHandle_m (fst (state_of (perform_all cs (b, r)))) = cublasHandle_m b \<and>
      count_list (calls (snd (state_of (perform_all cs (b, r))))) CublasCreate
        = count_list (calls r) CublasCreate) \<and>
   (cusparseHandle_m b = 0 \<and> backend_deviceId_m b < device_count r \<and>
      handle_supply r = h # hs \<and> h \<noteq> 0 \<longrightarrow>
      getCusparseHandle (b, r) =
        Returned h (b\<lparr>cusparseHandle_m := h\<rparr>,
          r\<lparr>current_device := backend_deviceId_m b,
             calls := calls r @ [SetDevice (backend_deviceId_m b), CusparseCreate, CusparseSetStream h],
             handle_supply := hs\<rparr>)) \<and>
   (cusparseHandle_m b \<noteq> 0 \<longrightarrow>
      getCusparseHandle (b, r) = Returned (cusparseHandle_m b) (b, r) \<and>
      cusparseHandle_m (fst (state_of (perform_all cs (b, r)))) = cusparseHandle_m b \<and>
      count_list (calls (snd (state_of (perform_all cs (b, r))))) CusparseCreate
        = count_list (calls r) CusparseCreate)"
proof (intro conjI impI)
  assume "cublasHandle_m b = 0 \<and> backend_deviceId_m b < device_count r \<and>
      handle_supply r = h # hs \<and> h \<noteq> 0"
  then show "getCublasHandle (b, r) =
        Returned h (b\<lparr>cublasHandle_m := h\<rparr>,
          r\<lparr>current_device := backend_deviceId_m b,
             calls := calls r @ [SetDevice (backend_deviceId_m b), CublasCreate, CublasSetStream h],
             handle_supply := hs\<rparr>)"
    by (simp add: getCublasHandle_first)
next
  assume "cusparseHandle_m b = 0 \<and> backend_deviceId_m b < device_count r \<and>
      handle_supply r = h # hs \<and> h \<noteq> 0"
  then show "getCusparseHandle (b, r) =
        Returned h (b\<lparr>cusparseHandle_m := h\<rparr>,
          r\<lparr>current_device := backend_deviceId_m b,
             calls := calls r @ [SetDevice (backend_deviceId_m b), CusparseCreate, CusparseSetStream h],
             handle_supply := hs\<rparr>)"
    by (simp add: getCusparseHandle_first)
next
  assume h: "cublasHandle_m b \<noteq> 0"
  then show "getCublasHandle (b, r) = Returned (cublasHandle_m b) (b, r)"
    by (simp add: getCublasHandle_def)
  from perform_all_cublas_latch [OF h, of cs r]
  show "cublasHandle_m (fst (state_of (perform_all cs (b, r)))) = cublasHandle_m b"
    and "count_list (calls (snd (state_of (perform_all cs (b, r))))) CublasCreate
        = count_list (calls r) CublasCreate"
    by simp_all
next
  assume h: "cusparseHandle_m b \<noteq> 0"
  then show "getCusparseHandle (b, r) = Returned (cusparseHandle_m b) (b, r)"
    by (simp add: getCusparseHandle_def)
  from perform_all_cusparse_latch [OF h, of cs r]
  show "cusparseHandle_m (fst (state_of (perform_all cs (b, r)))) = cusparseHandle_m b"
    and "count_list (calls (snd (state_of (perform_all cs (b, r))))) CusparseCreate
        = count_list (calls r) CusparseCreate"
    by simp_all
qed

theorem math_handles_latch_witness:
  "getCublasHandle (backend0, runtime0) =
     Returned 5 (backend0\<lparr>cublasHandle_m := 5\<rparr>,
       runtime0\<lparr>current_device := 0, calls := [SetDevice 0, CublasCreate, CublasSetStream 5],
                handle_supply := [9]\<rparr>) \<and>
   getCusparseHandle (backend0, runtime0) =
     Returned 5 (backend0\<lparr>cusparseHandle_m := 5\<rparr>,
       runtime0\<lparr>current_device := 0, calls := [SetDevice 0, CusparseCreate, CusparseSetStream 5],
                handle_supply := [9]\<rparr>) \<and>
   getCublasHandle (backend0\<lparr>cublasHandle_m := 5, cusparseHandle_m := 9\<rparr>, runtime0) =
     Returned 5 (backend0\<lparr>cublasHandle_m := 5, cusparseHandle_m := 9\<rparr>, runtime0) \<and>
   cublasHandle_m (fst (state_of (perform_all [GetCublasHandle, SetInt8 True, GetCusparseHandle]
      (backend0\<lparr>cublasHandle_m := 5, cusparseHandle_m := 9\<rparr>, runtime0)))) = 5 \<and>
   count_list (calls (snd (state_of (perform_all [GetCublasHandle, SetInt8 True, GetCusparseHandle]
      (backend0\<lparr>cublasHandle_m := 5, cusparseHandle_m := 9\<rparr>, runtime0))))) CublasCreate = 0 \<and>
   getCusparseHandle (backend0\<lparr>cublasHandle_m := 5, cusparseHandle_m := 9\<rparr>, runtime0) =
     Returned 9 (backend0\<lparr>cublasHandle_m := 5, cusparseHandle_m := 9\<rparr>, runtime0) \<and>
   cusparseHandle_m (fst (state_of (perform_all [GetCublasHandle, SetInt8 True, GetCusparseHandle]
      (backend0\<lparr>cublasHandle_m := 5, cusparseHandle_m := 9\<rparr>, runtime0)))) = 9 \<and>
   count_list (calls (snd (state_of (perform_all [GetCublasHandle, SetInt8 True, GetCusparseHandle]
      (backend0\<lparr>cublasHandle_m := 5, cusparseHandle_m := 9\<rparr>, runtime0))))) CusparseCreate = 0"
  using math_handles_latch [of backend0 runtime0 5 "[9]" "[]"]
    math_handles_latch [of "backend0\<lparr>cublasHandle_m := 5, cusparseHandle_m := 9\<rparr>" runtime0 5 "[9]"
      "[GetCublasHandle, SetInt8 True, GetCusparseHandle]"]
  by (simp add: backend0_def runtime0_def del: perform_all.simps)

section \<open>The selection engine: result extraction\<close>


lemma push_pairs_eq:
  "push_pairs host i n ks vs =
     (ks @ map (\<lambda>j. p (host ! j)) [i..<n], vs @ map (\<lambda>j. u (host ! j)) [i..<n])"
proof (induction host i n ks vs rule: push_pairs.induct)
  case (1 host i numElts ks vs)
  show ?case
  proof (cases "i < numElts")
    case True
    then have "[i..<numElts] = i # [Suc i..<numElts]" by (simp add: upt_conv_Cons)
    with True "1.IH" show ?thesis by (subst push_pairs.simps) simp
  next
    case False
    then show ?thesis by (subst push_pairs.simps) simp
  qed
qed

lemma map_nth_take: "n \<le> length xs \<Longrightarrow> map (\<lambda>j. f (xs ! j)) [0..<n] = map f (take n xs)"
  by (rule nth_equalityI) simp_all

lemma push_pairs_take:
  assumes "n \<le> length host"
  shows "push_pairs host 0 n ks vs = (ks @ map p (take n host), vs @ map u (take n host))"
  using assms by (simp add: push_pairs_eq map_nth_take)

lemma failing_set_device [simp]: "failing (rt (set_device st)) = failing (rt st)"
  by (simp add: set_device_def cudaSetDevice_def issue_def)

lemma getPairs_ok:
  assumes "unat numElts \<le> length (tops (eng st))" "unat numElts \<le> length (topsHost (eng st))"
    and "\<not> reports_error (unat numElts) (rt st)"
  shows "getPairs numElts st =
    Returned () (st\<lparr>eng := (eng st)\<lparr>topsHost := take (unat numElts) (tops (eng st)) @ drop (unat numElts) (topsHost (eng st))\<rparr>,
         rt := issue StreamSynchronize (issue (MemcpyDeviceToHost (unat numElts)) (rt (set_device st))),
         outKeys := outKeys st @ map p (take (unat numElts) (tops (eng st))),
         outCosts := outCosts st @ map u (take (unat numElts) (tops (eng st)))\<rparr>)"
proof -
  have "push_pairs (take (unat numElts) (tops (eng st)) @ drop (unat numElts) (topsHost (eng st))) 0 (unat numElts) ks vs
     = (ks @ map p (take (unat numElts) (tops (eng st))), vs @ map u (take (unat numElts) (tops (eng st))))" for ks vs
    using assms(1,2) by (subst push_pairs_take) simp_all
  moreover have "MemcpyDeviceToHost (unat numElts) \<notin> set (failing (rt (set_device st)))"
      "StreamSynchronize \<notin> set (failing (rt (set_device st)))"
    using assms(3) by (simp_all add: reports_error_def)
  ultimately show ?thesis using assms(1,2)
    by (simp add: getPairs_def Let_def cudaMemcpyAsync_def cudaStreamSynchronize_def issue_def)
      (simp add: set_device_def)
qed

lemma getPairs_error:
  assumes "unat numElts \<le> length (tops (eng st))" "unat numElts \<le> length (topsHost (eng st))"
    and "reports_error (unat numElts) (rt st)"
  shows "\<exists>s. getPairs numElts st = Aborted CudaError s \<and>
           outKeys s = outKeys st \<and> outCosts s = outCosts st \<and>
           tops (eng s) = tops (eng st) \<and>
           length (topsHost (eng s)) = length (topsHost (eng st)) \<and>
           maxBatchSize_m (eng s) = maxBatchSize_m (eng st) \<and>
           maxBeamSize_m (eng s) = maxBeamSize_m (eng st) \<and>
           failing (rt s) = failing (rt st)"
proof (cases "MemcpyDeviceToHost (unat numElts) \<in> set (failing (rt st))")
  case True
  then have "MemcpyDeviceToHost (unat numElts) \<in> set (failing (rt (set_device st)))" by simp
  then show ?thesis
    by (simp add: getPairs_def Let_def cudaMemcpyAsync_def issue_def) (simp add: set_device_def)
next
  case False
  with assms(3) have "StreamSynchronize \<in> set (failing (rt (set_device st)))"
      "MemcpyDeviceToHost (unat numElts) \<notin> set (failing (rt (set_device st)))"
    by (simp_all add: reports_error_def)
  then show ?thesis using assms(1,2)
    by (simp add: getPairs_def Let_def cudaMemcpyAsync_def cudaStreamSynchronize_def issue_def)
      (simp add: set_device_def)
qed

lemma set_device_simps [simp]:
  "eng (set_device st) = eng st" "outKeys (set_device st) = outKeys st"
  "outCosts (set_device st) = outCosts st"
  "calls (rt (set_device st)) = calls (rt st) @ [SetDevice (deviceId_m (eng st))]"
  by (simp_all add: set_device_def cudaSetDevice_def issue_def)

lemma selectNBest_simps [simp]:
  "outKeys (selectNBest L pr a b c d st) = outKeys st"
  "outCosts (selectNBest L pr a b c d st) = outCosts st"
  "topsHost (eng (selectNBest L pr a b c d st)) = topsHost (eng st)"
  "maxBeamSize_m (eng (selectNBest L pr a b c d st)) = maxBeamSize_m (eng st)"
  "maxBatchSize_m (eng (selectNBest L pr a b c d st)) = maxBatchSize_m (eng st)"
  "deviceId_m (eng (selectNBest L pr a b c d st)) = deviceId_m (eng st)"
  "tops (eng (selectNBest L pr a b c d st)) =
     snd (snd (L pr (topk_tmp_id_buf (eng st)) (topk_tmp_val_buf (eng st)) (tops (eng st)) a b c d))"
  "calls (rt (selectNBest L pr a b c d st)) =
     calls (rt st) @ [SetDevice (deviceId_m (eng st)), KernelLaunch]"
  "failing (rt (selectNBest L pr a b c d st)) = failing (rt st)"
  by (simp_all add: selectNBest_def Let_def issue_def split: prod.splits)

lemma selectNBest_length_tops:
  "keeps_size L \<Longrightarrow> length (tops (eng (selectNBest L pr a b c d st))) = length (tops (eng st))"
  by (simp add: keeps_size_def)

lemma unat_mult_le:
  fixes a n A B :: size_t
  assumes "a \<le> A" "n \<le> B"
  shows "unat (a * n) \<le> unat A * unat B"
proof -
  have "unat (a * n) \<le> unat a * unat n"
    by (simp add: unat_word_ariths)
  also have "\<dots> \<le> unat A * unat B"
    using assms by (intro mult_le_mono) (simp_all add: word_le_nat_alt)
  finally show ?thesis .
qed

lemma getNBestList_invalid:
  assumes "\<not> (scast (dim_m2 (shape scores)) = (if isFirst then 1 else N) \<and>
              sint (dim_m1 (shape scores)) \<le> 500000 \<and>
              scast (dim_m4 (shape scores)) \<le> maxBatchSize_m (eng st) \<and>
              max N (scast (dim_m2 (shape scores))) \<le> maxBeamSize_m (eng st) \<and>
              supported fp_half (elem_type scores))"
  shows "\<exists>e. getNBestList L fp_half scores N isFirst st = Aborted e (set_device st)"
  using assms
  by (auto simp: getNBestList_def Let_def supported_def MAX_VOCAB_SIZE_def word_sless_alt not_less)

lemma getNBestList_valid:
  assumes ok: "engine_ok (eng st)" and L: "keeps_size L"
    and v: "scast (dim_m2 (shape scores)) = (if isFirst then 1 else N)"
      "sint (dim_m1 (shape scores)) \<le> 500000"
      "scast (dim_m4 (shape scores)) \<le> maxBatchSize_m (eng st)"
      "max N (scast (dim_m2 (shape scores))) \<le> maxBeamSize_m (eng st)"
      "supported fp_half (elem_type scores)"
  defines "st2 \<equiv> selectNBest L (elems scores) (dim_m4 (shape scores)) (dim_m2 (shape scores))
                    (ucast N) (dim_m1 (shape scores)) (set_device st)"
  defines "n \<equiv> unat (scast (dim_m4 (shape scores)) * N :: size_t)"
  shows "getNBestList L fp_half scores N isFirst st =
           (case getPairs (scast (dim_m4 (shape scores)) * N) st2 of
              Aborted e s \<Rightarrow> Aborted e s
            | Returned _ st3 \<Rightarrow>
                if outKeys st = [] then Returned () st3 else Aborted WrongResultCount st3)"
    and "n \<le> length (tops (eng st2))" and "n \<le> length (topsHost (eng st2))"
proof -
  have N: "N \<le> maxBeamSize_m (eng st)" using v(4) by simp
  from unat_mult_le [OF v(3) N] ok
  have n: "n \<le> length (tops (eng st))" "n \<le> length (topsHost (eng st))"
    by (simp_all add: n_def engine_ok_def)
  show 2: "n \<le> length (tops (eng st2))" using n L
    by (simp add: st2_def selectNBest_length_tops del: selectNBest_simps)
  show 3: "n \<le> length (topsHost (eng st2))" using n by (simp add: st2_def)
  have sel: "(if elem_type scores = float32
              then Returned () st2
              else if fp_half \<and> elem_type scores = float16
              then Returned () st2
              else Aborted TypeNotImplemented (set_device st)) = Returned () st2"
    using v(5) by (auto simp: supported_def)
  have chk: "(case getPairs (scast (dim_m4 (shape scores)) * N) st2 of
                Aborted e s \<Rightarrow> Aborted e s
              | Returned _ st3 \<Rightarrow>
                  if length (outKeys st3) \<noteq> n then Aborted WrongResultCount st3
                  else Returned () st3)
           = (case getPairs (scast (dim_m4 (shape scores)) * N) st2 of
                Aborted e s \<Rightarrow> Aborted e s
              | Returned _ st3 \<Rightarrow>
                  if outKeys st = [] then Returned () st3 else Aborted WrongResultCount st3)"
  proof (cases "reports_error n (rt st2)")
    case True
    from getPairs_error [of "scast (dim_m4 (shape scores)) * N" st2] 2 3 True
    obtain s where "getPairs (scast (dim_m4 (shape scores)) * N) st2 = Aborted CudaError s"
      by (auto simp: n_def)
    then show ?thesis by simp
  next
    case False
    have gp: "getPairs (scast (dim_m4 (shape scores)) * N) st2 = Returned ()
        (st2\<lparr>eng := (eng st2)\<lparr>topsHost := take n (tops (eng st2)) @ drop n (topsHost (eng st2))\<rparr>,
           rt := issue StreamSynchronize (issue (MemcpyDeviceToHost n) (rt (set_device st2))),
           outKeys := outKeys st2 @ map p (take n (tops (eng st2))),
           outCosts := outCosts st2 @ map u (take n (tops (eng st2)))\<rparr>)"
      using getPairs_ok [of "scast (dim_m4 (shape scores)) * N" st2] 2 3 False by (simp add: n_def)
    have len: "length (outKeys st2 @ map p (take n (tops (eng st2)))) = length (outKeys st) + n"
      using 2 by (simp add: st2_def)
    show ?thesis unfolding gp using len by auto
  qed
  have "getNBestList L fp_half scores N isFirst st =
          (case getPairs (scast (dim_m4 (shape scores)) * N) st2 of
                Aborted e s \<Rightarrow> Aborted e s
              | Returned _ st3 \<Rightarrow>
                  if length (outKeys st3) \<noteq> n then Aborted WrongResultCount st3
                  else Returned () st3)"
  proof -
    have c: "\<not> MAX_VOCAB_SIZE <s dim_m1 (shape scores)"
        "\<not> maxBatchSize_m (eng st) < scast (dim_m4 (shape scores))"
        "\<not> maxBeamSize_m (eng st) < max N (if isFirst then 1 else N)"
      using v(2,3,4) by (simp_all add: MAX_VOCAB_SIZE_def word_sless_alt not_less v(1))
    show ?thesis
      unfolding getNBestList_def Let_def
      by (simp only: c v(1) sel st2_def [symmetric] n_def [symmetric] set_device_simps
          if_False if_True simp_thms outcome.case)
  qed
  then show "getNBestList L fp_half scores N isFirst st =
           (case getPairs (scast (dim_m4 (shape scores)) * N) st2 of
              Aborted e s \<Rightarrow> Aborted e s
            | Returned _ st3 \<Rightarrow>
                if outKeys st = [] then Returned () st3 else Aborted WrongResultCount st3)"
    by (simp only: chk)
qed

text \<open>
  An engine the constructor returns has buffers of the sizes \<open>engine_ok\<close> asks for,
  provided the byte count of the result buffer does not wrap around.
\<close>

lemma unat_mult3_exact:
  fixes a b :: size_t
  assumes "0 < sz" "unat a * unat b * sz < 2 ^ 64"
  shows "unat (a * b * of_nat sz) div sz = unat a * unat b"
proof (cases "unat a * unat b = 0")
  case True
  then have "a = 0 \<or> b = 0" by (auto simp: unat_eq_0)
  then have "a * b * of_nat sz = 0" by auto
  with True show ?thesis by simp
next
  case False
  then have pos: "1 \<le> unat a * unat b" by simp
  have "sz \<le> unat a * unat b * sz" using pos by (cases "unat a * unat b") simp_all
  then have sz: "sz < 2 ^ 64" using assms(2) by (rule le_less_trans)
  have "unat a * unat b \<le> unat a * unat b * sz" using assms(1) by (cases sz) simp_all
  then have ab: "unat a * unat b < 2 ^ 64" using assms(2) by (rule le_less_trans)
  have 1: "unat (a * b) = unat a * unat b" using ab by (simp add: unat_word_ariths)
  have 2: "unat (of_nat sz :: size_t) = sz" using sz by (simp add: unat_of_nat)
  have "unat (a * b * of_nat sz) = (unat (a * b) * unat (of_nat sz :: size_t)) mod 2 ^ 64"
    by (simp only: unat_word_ariths(2)) simp
  also have "\<dots> = (unat a * unat b * sz) mod 2 ^ 64" by (simp only: 1 2)
  also have "\<dots> = unat a * unat b * sz" using assms(2) by (rule mod_less)
  finally have "unat (a * b * of_nat sz) = unat (a * b) * unat (of_nat sz :: size_t)"
    by (simp only: 1 2)
  then show ?thesis using assms(1) by (simp add: 1 2)
qed

lemma new_NthElementGPU_engine_ok:
  assumes "new_NthElementGPU nb sizeof_TopK junk_id junk_val junk_top maxBeamSize maxBatchSize deviceId r
             = Returned e r'"
    and "0 < sizeof_TopK"
    and "unat maxBatchSize * unat maxBeamSize * sizeof_TopK < 2 ^ 64"
  shows "engine_ok e \<and> maxBeamSize_m e = maxBeamSize \<and> maxBatchSize_m e = maxBatchSize \<and>
         deviceId_m e = deviceId"
proof -
  have p: "unat maxBatchSize * unat maxBeamSize < 2 ^ 64"
  proof -
    have "unat maxBatchSize * unat maxBeamSize \<le> unat maxBatchSize * unat maxBeamSize * sizeof_TopK"
      using assms(2) by (cases sizeof_TopK) simp_all
    then show ?thesis using assms(3) by (rule le_less_trans)
  qed
  have a: "unat (maxBatchSize * maxBeamSize * of_nat sizeof_TopK) div sizeof_TopK
             = unat maxBatchSize * unat maxBeamSize"
    using assms(2,3) by (rule unat_mult3_exact)
  have "unat maxBeamSize * unat maxBatchSize * sizeof_TopK < 2 ^ 64"
    using assms(3) by (simp add: mult.commute)
  with assms(2) have b: "unat (maxBeamSize * maxBatchSize * of_nat sizeof_TopK) div sizeof_TopK
             = unat maxBeamSize * unat maxBatchSize"
    by (rule unat_mult3_exact)
  from assms(1) have "e = \<lparr>deviceId_m = deviceId, maxBeamSize_m = maxBeamSize,
        maxBatchSize_m = maxBatchSize,
        topk_tmp_id_buf = topk_tmp_id_buf e, topk_tmp_val_buf = topk_tmp_val_buf e,
        tops = map junk_top [0..<unat (maxBatchSize * maxBeamSize * of_nat sizeof_TopK) div sizeof_TopK],
        topsHost = map junk_top [0..<unat (maxBeamSize * maxBatchSize * of_nat sizeof_TopK) div sizeof_TopK]\<rparr>"
    by (auto simp: new_NthElementGPU_def Let_def cudaMalloc_def cudaHostAlloc_def
        split: prod.splits option.splits if_splits)
  then have "length (tops e) = unat maxBatchSize * unat maxBeamSize"
      "length (topsHost e) = unat maxBatchSize * unat maxBeamSize"
      "maxBeamSize_m e = maxBeamSize" "maxBatchSize_m e = maxBatchSize" "deviceId_m e = deviceId"
    using a b
    by (metis NthElementGPU.select_convs(6) length_map length_upt diff_zero,
        metis NthElementGPU.select_convs(7) length_map length_upt diff_zero mult.commute,
        metis NthElementGPU.select_convs(2), metis NthElementGPU.select_convs(3),
        metis NthElementGPU.select_convs(1))
  with p show ?thesis by (simp add: engine_ok_def)
qed

lemma engine0_constructed:
  "new_NthElementGPU 2 8 (\<lambda>i. 0) (\<lambda>i. 0) (\<lambda>i. \<lparr>p = 0, u = 0\<rparr>) 3 2 0 runtime0
     = Returned engine0
         (runtime0\<lparr>device_free := 3760, host_free := 4048,
                   calls := [SetDevice 0, Malloc 144, Malloc 144, Malloc 48, HostAlloc 48]\<rparr>)"
  by code_simp

lemma keeps_size_topK: "keeps_size (topK_kernelLauncher nb part blank)"
  by (simp add: keeps_size_def topK_kernelLauncher_def Let_def write_tops_def)

lemma engine_ok_engine0: "engine_ok engine0"
  by (simp add: engine_ok_def engine0_def)

lemma unat_mult_exact:
  fixes a n A B :: size_t
  assumes "a \<le> A" "n \<le> B" "unat A * unat B < 2 ^ 64"
  shows "unat (a * n) = unat a * unat n"
proof -
  have "unat a * unat n \<le> unat A * unat B"
    using assms by (intro mult_le_mono) (simp_all add: word_le_nat_alt)
  with assms(3) have "unat a * unat n < 2 ^ 64" by simp
  then show ?thesis by (simp add: unat_word_ariths)
qed

lemma getNBestList_valid_result:
  assumes ok: "engine_ok (eng st)" and L: "keeps_size L"
    and v: "scast (dim_m2 (shape scores)) = (if isFirst then 1 else N)"
      "sint (dim_m1 (shape scores)) \<le> 500000"
      "scast (dim_m4 (shape scores)) \<le> maxBatchSize_m (eng st)"
      "max N (scast (dim_m2 (shape scores))) \<le> maxBeamSize_m (eng st)"
      "supported fp_half (elem_type scores)"
    and ne: "\<not> reports_error (unat (scast (dim_m4 (shape scores)) * N :: size_t)) (rt st)"
  defines "T \<equiv> snd (snd (L (elems scores) (topk_tmp_id_buf (eng st)) (topk_tmp_val_buf (eng st))
       (tops (eng st)) (dim_m4 (shape scores)) (dim_m2 (shape scores)) (ucast N) (dim_m1 (shape scores))))"
  defines "n \<equiv> unat (scast (dim_m4 (shape scores)) :: size_t) * unat N"
  shows "\<exists>s. getNBestList L fp_half scores N isFirst st
               = (if outKeys st = [] then Returned () s else Aborted WrongResultCount s) \<and>
             outKeys s = outKeys st @ map p (take n T) \<and>
             outCosts s = outCosts st @ map u (take n T) \<and>
             tops (eng s) = T \<and> n \<le> length T \<and>
             topsHost (eng s) = take n T @ drop n (topsHost (eng st)) \<and>
             maxBatchSize_m (eng s) = maxBatchSize_m (eng st) \<and>
             maxBeamSize_m (eng s) = maxBeamSize_m (eng st) \<and>
             failing (rt s) = failing (rt st) \<and>
             calls (rt s) = calls (rt st) @ [SetDevice (deviceId_m (eng st)),
                SetDevice (deviceId_m (eng st)), KernelLaunch, SetDevice (deviceId_m (eng st)),
                MemcpyDeviceToHost n, StreamSynchronize]"
proof -
  let ?st2 = "selectNBest L (elems scores) (dim_m4 (shape scores)) (dim_m2 (shape scores))
                    (ucast N) (dim_m1 (shape scores)) (set_device st)"
  let ?m = "scast (dim_m4 (shape scores)) * N :: size_t"
  have N: "N \<le> maxBeamSize_m (eng st)" using v(4) by simp
  have m: "unat ?m = n"
    using unat_mult_exact [OF v(3) N] ok by (simp add: n_def engine_ok_def)
  have T: "tops (eng ?st2) = T" by (simp add: T_def)
  note V = getNBestList_valid [OF ok L v]
  from V(2,3) have le: "unat ?m \<le> length (tops (eng ?st2))" "unat ?m \<le> length (topsHost (eng ?st2))"
    by simp_all
  have ne2: "\<not> reports_error (unat ?m) (rt ?st2)"
    using ne by (simp add: reports_error_def)
  show ?thesis
    unfolding V(1) getPairs_ok [OF le ne2]
    using le(1) by (simp add: m T issue_def del: selectNBest_simps(7))
qed

lemma getNBestList_valid_error:
  assumes ok: "engine_ok (eng st)" and L: "keeps_size L"
    and v: "scast (dim_m2 (shape scores)) = (if isFirst then 1 else N)"
      "sint (dim_m1 (shape scores)) \<le> 500000"
      "scast (dim_m4 (shape scores)) \<le> maxBatchSize_m (eng st)"
      "max N (scast (dim_m2 (shape scores))) \<le> maxBeamSize_m (eng st)"
      "supported fp_half (elem_type scores)"
    and er: "reports_error (unat (scast (dim_m4 (shape scores)) * N :: size_t)) (rt st)"
  shows "\<exists>s. getNBestList L fp_half scores N isFirst st = Aborted CudaError s \<and>
             outKeys s = outKeys st \<and> outCosts s = outCosts st \<and>
             length (tops (eng s)) = length (tops (eng st)) \<and>
             length (topsHost (eng s)) = length (topsHost (eng st)) \<and>
             maxBatchSize_m (eng s) = maxBatchSize_m (eng st) \<and>
             maxBeamSize_m (eng s) = maxBeamSize_m (eng st) \<and>
             failing (rt s) = failing (rt st)"
proof -
  let ?st2 = "selectNBest L (elems scores) (dim_m4 (shape scores)) (dim_m2 (shape scores))
                    (ucast N) (dim_m1 (shape scores)) (set_device st)"
  let ?m = "scast (dim_m4 (shape scores)) * N :: size_t"
  note V = getNBestList_valid [OF ok L v]
  from V(2,3) have le: "unat ?m \<le> length (tops (eng ?st2))" "unat ?m \<le> length (topsHost (eng ?st2))"
    by simp_all
  have er2: "reports_error (unat ?m) (rt ?st2)"
    using er by (simp add: reports_error_def)
  from getPairs_error [OF le er2]
  obtain s where s: "getPairs ?m ?st2 = Aborted CudaError s"
      "outKeys s = outKeys ?st2" "outCosts s = outCosts ?st2" "tops (eng s) = tops (eng ?st2)"
      "length (topsHost (eng s)) = length (topsHost (eng ?st2))"
      "maxBatchSize_m (eng s) = maxBatchSize_m (eng ?st2)"
      "maxBeamSize_m (eng s) = maxBeamSize_m (eng ?st2)"
      "failing (rt s) = failing (rt ?st2)"
    by blast
  have "length (tops (eng ?st2)) = length (tops (eng st))"
    using L by (simp add: selectNBest_length_tops del: selectNBest_simps)
  with s show ?thesis unfolding V(1) by simp
qed

text \<open>
  C4. Let both buffers hold \<open>numElts\<close> records. When the runtime reports no error,
  \<open>getPairs\<close> returns: the first \<open>numElts\<close> records of the host mirror are then those
  of the device result buffer and the rest of the mirror is as before; the copy is issued
  and then the synchronization; and the keys and costs are the old ones followed by the
  indices and the values of those records in buffer order, the key and the cost at each
  appended position being the two fields of the same record. When the runtime reports an
  error at the copy or at the synchronization, \<open>getPairs\<close> aborts on it and appends
  nothing. (\<open>getNBestList\<close> calls it with \<open>dimBatch * N\<close>.)
\<close>

theorem getPairs_extracts:
  assumes "unat numElts \<le> length (tops (eng st))" "unat numElts \<le> length (topsHost (eng st))"
  shows "(\<not> reports_error (unat numElts) (rt st) \<longrightarrow>
     (\<exists>st'. getPairs numElts st = Returned () st' \<and>
      take (unat numElts) (topsHost (eng st')) = take (unat numElts) (tops (eng st)) \<and>
      drop (unat numElts) (topsHost (eng st')) = drop (unat numElts) (topsHost (eng st)) \<and>
      tops (eng st') = tops (eng st) \<and>
      calls (rt st') = calls (rt st) @ [SetDevice (deviceId_m (eng st)),
                          MemcpyDeviceToHost (unat numElts), StreamSynchronize] \<and>
      outKeys st' = outKeys st @ map p (take (unat numElts) (tops (eng st))) \<and>
      outCosts st' = outCosts st @ map u (take (unat numElts) (tops (eng st))) \<and>
      (\<forall>i < unat numElts.
         outKeys st' ! (length (outKeys st) + i) = p (tops (eng st) ! i) \<and>
         outCosts st' ! (length (outCosts st) + i) = u (tops (eng st) ! i)))) \<and>
    (reports_error (unat numElts) (rt st) \<longrightarrow>
     (\<exists>s. getPairs numElts st = Aborted CudaError s \<and>
          outKeys s = outKeys st \<and> outCosts s = outCosts st))"
proof (intro conjI impI)
  assume "\<not> reports_error (unat numElts) (rt st)"
  with assms show "\<exists>st'. getPairs numElts st = Returned () st' \<and>
      take (unat numElts) (topsHost (eng st')) = take (unat numElts) (tops (eng st)) \<and>
      drop (unat numElts) (topsHost (eng st')) = drop (unat numElts) (topsHost (eng st)) \<and>
      tops (eng st') = tops (eng st) \<and>
      calls (rt st') = calls (rt st) @ [SetDevice (deviceId_m (eng st)),
                          MemcpyDeviceToHost (unat numElts), StreamSynchronize] \<and>
      outKeys st' = outKeys st @ map p (take (unat numElts) (tops (eng st))) \<and>
      outCosts st' = outCosts st @ map u (take (unat numElts) (tops (eng st))) \<and>
      (\<forall>i < unat numElts.
         outKeys st' ! (length (outKeys st) + i) = p (tops (eng st) ! i) \<and>
         outCosts st' ! (length (outCosts st) + i) = u (tops (eng st) ! i))"
    by (simp add: getPairs_ok issue_def nth_append)
next
  assume "reports_error (unat numElts) (rt st)"
  from getPairs_error [OF assms this]
  show "\<exists>s. getPairs numElts st = Aborted CudaError s \<and>
          outKeys s = outKeys st \<and> outCosts s = outCosts st"
    by blast
qed

theorem getPairs_extracts_witness:
  "(\<exists>st'. getPairs 2 (state0\<lparr>eng := engine0\<lparr>tops := [\<lparr>p = 1, u = 90\<rparr>, \<lparr>p = 4, u = 40\<rparr>, \<lparr>p = 2, u = 30\<rparr>]\<rparr>,
                                     outKeys := [8], outCosts := [7]\<rparr>) = Returned () st' \<and>
      outKeys st' = [8, 1, 4] \<and> outCosts st' = [7, 90, 40] \<and>
      take 2 (topsHost (eng st')) = [\<lparr>p = 1, u = 90\<rparr>, \<lparr>p = 4, u = 40\<rparr>]) \<and>
   (\<exists>s. getPairs 2 (state0\<lparr>rt := runtime0\<lparr>failing := [StreamSynchronize]\<rparr>,
                               outKeys := [8], outCosts := [7]\<rparr>) = Aborted CudaError s \<and>
      outKeys s = [8] \<and> outCosts s = [7])"
proof -
  have a: "\<exists>st'. getPairs 2 (state0\<lparr>eng := engine0\<lparr>tops := [\<lparr>p = 1, u = 90\<rparr>, \<lparr>p = 4, u = 40\<rparr>, \<lparr>p = 2, u = 30\<rparr>]\<rparr>,
                                     outKeys := [8], outCosts := [7]\<rparr>) = Returned () st' \<and>
      outKeys st' = [8, 1, 4] \<and> outCosts st' = [7, 90, 40] \<and>
      take 2 (topsHost (eng st')) = [\<lparr>p = 1, u = 90\<rparr>, \<lparr>p = 4, u = 40\<rparr>]"
    using getPairs_extracts [of 2 "state0\<lparr>eng := engine0\<lparr>tops := [\<lparr>p = 1, u = 90\<rparr>, \<lparr>p = 4, u = 40\<rparr>, \<lparr>p = 2, u = 30\<rparr>]\<rparr>,
                                     outKeys := [8], outCosts := [7]\<rparr>"]
    by (simp add: state0_def engine0_def runtime0_def reports_error_def) blast
  have b: "\<exists>s. getPairs 2 (state0\<lparr>rt := runtime0\<lparr>failing := [StreamSynchronize]\<rparr>,
                               outKeys := [8], outCosts := [7]\<rparr>) = Aborted CudaError s \<and>
      outKeys s = [8] \<and> outCosts s = [7]"
    using getPairs_extracts [of 2 "state0\<lparr>rt := runtime0\<lparr>failing := [StreamSynchronize]\<rparr>,
                               outKeys := [8], outCosts := [7]\<rparr>"]
    by (simp add: state0_def engine0_def runtime0_def reports_error_def)
  from a b show ?thesis by (intro conjI)
qed

section \<open>The selection engine: preconditions\<close>

text \<open>
  C10. When the beam dimension is wrong, or the vocabulary, the batch or the beam too
  large, or the element type has no code path, \<open>getNBestList\<close> aborts with one of the
  five precondition messages, and at that moment the two output vectors and the engine's
  buffers are as they were on entry and the only runtime call issued is the first
  \<open>cudaSetDevice\<close>: no kernel has been launched and nothing has been copied.
\<close>

theorem abort_before_effects:
  assumes "\<not> (scast (dim_m2 (shape scores)) = (if isFirst then 1 else N) \<and>
              sint (dim_m1 (shape scores)) \<le> 500000 \<and>
              scast (dim_m4 (shape scores)) \<le> maxBatchSize_m (eng st) \<and>
              max N (scast (dim_m2 (shape scores))) \<le> maxBeamSize_m (eng st) \<and>
              supported fp_half (elem_type scores))"
  shows "\<exists>e s. getNBestList L fp_half scores N isFirst st = Aborted e s \<and>
           e \<noteq> WrongResultCount \<and> e \<noteq> CudaError \<and>
           outCosts s = outCosts st \<and> outKeys s = outKeys st \<and> eng s = eng st \<and>
           calls (rt s) = calls (rt st) @ [SetDevice (deviceId_m (eng st))]"
  using assms
  by (auto simp: getNBestList_def Let_def supported_def MAX_VOCAB_SIZE_def word_sless_alt not_less)

theorem abort_before_effects_witness:
  "\<exists>e s. getNBestList kernel0 False scores0 4 False state0 = Aborted e s \<and>
           e \<noteq> WrongResultCount \<and> e \<noteq> CudaError \<and>
           outCosts s = [] \<and> outKeys s = [] \<and> eng s = engine0 \<and>
           calls (rt s) = [SetDevice 0]"
  using abort_before_effects [of scores0 False 4 state0 False kernel0]
  by (simp add: state0_def scores0_def engine0_def runtime0_def)

text \<open>
  C3, as the code has it. On an engine whose buffers have their sizes, and with the keys
  vector empty on entry, \<open>getNBestList\<close> aborts if and only if the beam dimension is not
  1 (when \<open>isFirst\<close>) or \<open>N\<close> (otherwise), or the vocabulary size is above 500000, or
  the batch size above the engine's maximum, or \<open>max(N, inputN)\<close> above the engine's
  maximum beam size, or the element type has no code path, or the runtime reports an
  error at the copy of the results or at the synchronization after it. So a vocabulary of
  500000 passes and one of 500001 does not, and \<open>N\<close> at the maximum beam size passes and
  one above does not.
\<close>

theorem getNBestList_aborts_iff:
  assumes "engine_ok (eng st)" "keeps_size L" "outKeys st = []"
  shows "aborted (getNBestList L fp_half scores N isFirst st) \<longleftrightarrow>
      (scast (dim_m2 (shape scores)) \<noteq> (if isFirst then 1 else N) \<or>
       500000 < sint (dim_m1 (shape scores)) \<or>
       maxBatchSize_m (eng st) < scast (dim_m4 (shape scores)) \<or>
       maxBeamSize_m (eng st) < max N (scast (dim_m2 (shape scores))) \<or>
       \<not> supported fp_half (elem_type scores) \<or>
       reports_error (unat (scast (dim_m4 (shape scores)) * N :: size_t)) (rt st))"
proof (cases "scast (dim_m2 (shape scores)) = (if isFirst then 1 else N) \<and>
              sint (dim_m1 (shape scores)) \<le> 500000 \<and>
              scast (dim_m4 (shape scores)) \<le> maxBatchSize_m (eng st) \<and>
              max N (scast (dim_m2 (shape scores))) \<le> maxBeamSize_m (eng st) \<and>
              supported fp_half (elem_type scores)")
  case True
  then have v: "scast (dim_m2 (shape scores)) = (if isFirst then 1 else N)"
      "sint (dim_m1 (shape scores)) \<le> 500000"
      "scast (dim_m4 (shape scores)) \<le> maxBatchSize_m (eng st)"
      "max N (scast (dim_m2 (shape scores))) \<le> maxBeamSize_m (eng st)"
      "supported fp_half (elem_type scores)"
    by blast+
  show ?thesis
  proof (cases "reports_error (unat (scast (dim_m4 (shape scores)) * N :: size_t)) (rt st)")
    case er: True
    from getNBestList_valid_error [OF assms(1,2) v er]
    obtain s where "getNBestList L fp_half scores N isFirst st = Aborted CudaError s"
      by blast
    with er show ?thesis by (simp add: aborted_def)
  next
    case ne: False
    from getNBestList_valid_result [OF assms(1,2) v ne]
    obtain s where "getNBestList L fp_half scores N isFirst st
                 = (if outKeys st = [] then Returned () s else Aborted WrongResultCount s)"
      by blast
    with True ne assms(3) show ?thesis by (auto simp: aborted_def not_less split: if_splits)
  qed
next
  case False
  from getNBestList_invalid [OF False]
  obtain e where "getNBestList L fp_half scores N isFirst st = Aborted e (set_device st)"
    by blast
  with False show ?thesis by (auto simp: aborted_def not_less not_le less_max_iff_disj)
qed

theorem getNBestList_aborts_iff_witness:
  "\<not> aborted (getNBestList kernel0 False (wide_scores 500000 float32) 1 True state0) \<and>
   aborted (getNBestList kernel0 False (wide_scores 500001 float32) 1 True state0) \<and>
   \<not> aborted (getNBestList kernel0 False scores0 3 True state0) \<and>
   aborted (getNBestList kernel0 False scores0 4 True state0) \<and>
   aborted (getNBestList kernel0 False scores0 3 True
              (state0\<lparr>rt := runtime0\<lparr>failing := [StreamSynchronize]\<rparr>\<rparr>))"
proof -
  have k: "keeps_size kernel0" unfolding kernel0_def by (rule keeps_size_topK)
  have e: "engine_ok (eng state0)" by (simp add: state0_def engine_ok_engine0)
  have o: "outKeys state0 = []" by (simp add: state0_def)
  have e': "engine_ok (eng (state0\<lparr>rt := runtime0\<lparr>failing := [StreamSynchronize]\<rparr>\<rparr>))"
    by (simp add: state0_def engine_ok_engine0)
  have o': "outKeys (state0\<lparr>rt := runtime0\<lparr>failing := [StreamSynchronize]\<rparr>\<rparr>) = []"
    by (simp add: state0_def)
  have a: "\<not> aborted (getNBestList kernel0 False (wide_scores 500000 float32) 1 True state0)"
    using getNBestList_aborts_iff [where st = state0 and L = kernel0 and fp_half = False
        and scores = "wide_scores 500000 float32" and isFirst = True and N = 1, OF e k o]
    by (simp add: state0_def wide_scores_def engine0_def supported_def runtime0_def reports_error_def)
  have b: "aborted (getNBestList kernel0 False (wide_scores 500001 float32) 1 True state0)"
    using getNBestList_aborts_iff [where st = state0 and L = kernel0 and fp_half = False
        and scores = "wide_scores 500001 float32" and isFirst = True and N = 1, OF e k o]
    by (simp add: state0_def wide_scores_def engine0_def supported_def runtime0_def reports_error_def)
  have c: "\<not> aborted (getNBestList kernel0 False scores0 3 True state0)"
    using getNBestList_aborts_iff [where st = state0 and L = kernel0 and fp_half = False
        and scores = scores0 and isFirst = True and N = 3, OF e k o]
    by (simp add: state0_def scores0_def engine0_def supported_def runtime0_def reports_error_def)
  have d: "aborted (getNBestList kernel0 False scores0 4 True state0)"
    using getNBestList_aborts_iff [where st = state0 and L = kernel0 and fp_half = False
        and scores = scores0 and isFirst = True and N = 4, OF e k o]
    by (simp add: state0_def scores0_def engine0_def supported_def runtime0_def reports_error_def)
  have f: "aborted (getNBestList kernel0 False scores0 3 True
              (state0\<lparr>rt := runtime0\<lparr>failing := [StreamSynchronize]\<rparr>\<rparr>))"
    using getNBestList_aborts_iff [where st = "state0\<lparr>rt := runtime0\<lparr>failing := [StreamSynchronize]\<rparr>\<rparr>"
        and L = kernel0 and fp_half = False and scores = scores0 and isFirst = True and N = 3,
        OF e' k o']
    by (simp add: state0_def scores0_def engine0_def supported_def runtime0_def reports_error_def)
  from a b c d f show ?thesis by (intro conjI)
qed

text \<open>
  The claim as stated fails: a tensor of an element type without a code path meets the
  four conditions the claim lists, and the call aborts.
\<close>

theorem unsupported_type_counterexample:
  "getNBestList kernel0 False (wide_scores 5 other_type) 1 True state0
     = Aborted TypeNotImplemented (set_device state0) \<and>
   scast (dim_m2 (shape (wide_scores 5 other_type))) = (1 :: size_t) \<and>
   sint (dim_m1 (shape (wide_scores 5 other_type))) \<le> 500000 \<and>
   scast (dim_m4 (shape (wide_scores 5 other_type))) \<le> maxBatchSize_m (eng state0) \<and>
   max 1 (scast (dim_m2 (shape (wide_scores 5 other_type)))) \<le> maxBeamSize_m (eng state0)"
  by (simp add: getNBestList_def Let_def wide_scores_def state0_def engine0_def MAX_VOCAB_SIZE_def
      word_sless_alt)

section \<open>The selection engine: the number of entries appended\<close>

text \<open>
  C2, what the code does. When the preconditions hold (beam dimension, vocabulary, batch
  and beam sizes, an element type with a code path) on an engine whose buffers have their
  sizes, and the runtime reports no error, \<open>getNBestList\<close> appends \<open>dimBatch * N\<close>
  entries to each vector, after the entries the vector held. It then compares the size
  of the keys vector, not its growth, with \<open>dimBatch * N\<close> (line 90): the call returns
  when the keys vector was empty on entry, whatever the costs vector held, and aborts
  otherwise, the entries appended.
\<close>

theorem getNBestList_appends:
  assumes "engine_ok (eng st)" "keeps_size L"
    and "scast (dim_m2 (shape scores)) = (if isFirst then 1 else N)"
      "sint (dim_m1 (shape scores)) \<le> 500000"
      "scast (dim_m4 (shape scores)) \<le> maxBatchSize_m (eng st)"
      "max N (scast (dim_m2 (shape scores))) \<le> maxBeamSize_m (eng st)"
      "supported fp_half (elem_type scores)"
    and "\<not> reports_error (unat (scast (dim_m4 (shape scores)) * N :: size_t)) (rt st)"
  shows "\<exists>s. getNBestList L fp_half scores N isFirst st
                = (if outKeys st = [] then Returned () s else Aborted WrongResultCount s) \<and>
              length (outKeys s)
                = length (outKeys st) + unat (scast (dim_m4 (shape scores)) :: size_t) * unat N \<and>
              length (outCosts s)
                = length (outCosts st) + unat (scast (dim_m4 (shape scores)) :: size_t) * unat N \<and>
              take (length (outKeys st)) (outKeys s) = outKeys st \<and>
              take (length (outCosts st)) (outCosts s) = outCosts st"
proof -
  from getNBestList_valid_result [OF assms]
  obtain s where s: "getNBestList L fp_half scores N isFirst st
               = (if outKeys st = [] then Returned () s else Aborted WrongResultCount s)"
      "outKeys s = outKeys st @ map p (take (unat (scast (dim_m4 (shape scores)) :: size_t) * unat N)
         (snd (snd (L (elems scores) (topk_tmp_id_buf (eng st)) (topk_tmp_val_buf (eng st))
           (tops (eng st)) (dim_m4 (shape scores)) (dim_m2 (shape scores)) (ucast N) (dim_m1 (shape scores))))))"
      "outCosts s = outCosts st @ map u (take (unat (scast (dim_m4 (shape scores)) :: size_t) * unat N)
         (snd (snd (L (elems scores) (topk_tmp_id_buf (eng st)) (topk_tmp_val_buf (eng st))
           (tops (eng st)) (dim_m4 (shape scores)) (dim_m2 (shape scores)) (ucast N) (dim_m1 (shape scores))))))"
      "unat (scast (dim_m4 (shape scores)) :: size_t) * unat N \<le> length
         (snd (snd (L (elems scores) (topk_tmp_id_buf (eng st)) (topk_tmp_val_buf (eng st))
           (tops (eng st)) (dim_m4 (shape scores)) (dim_m2 (shape scores)) (ucast N) (dim_m1 (shape scores)))))"
    by blast
  have "length (outKeys s)
                = length (outKeys st) + unat (scast (dim_m4 (shape scores)) :: size_t) * unat N"
      "length (outCosts s)
                = length (outCosts st) + unat (scast (dim_m4 (shape scores)) :: size_t) * unat N"
      "take (length (outKeys st)) (outKeys s) = outKeys st"
      "take (length (outCosts st)) (outCosts s) = outCosts st"
    using s(4) by (simp_all add: s(2,3) min_absorb2)
  with s(1) show ?thesis by blast
qed

theorem getNBestList_appends_witness:
  "(\<exists>s. getNBestList kernel0 False scores0 3 True (state0\<lparr>outKeys := [7]\<rparr>)
          = Aborted WrongResultCount s \<and>
        length (outKeys s) = 7 \<and> length (outCosts s) = 6) \<and>
   (\<exists>s. getNBestList kernel0 False scores0 3 True (state0\<lparr>outCosts := [1, 2]\<rparr>) = Returned () s \<and>
        length (outKeys s) = 6 \<and> length (outCosts s) = 8)"
proof -
  have k: "keeps_size kernel0" unfolding kernel0_def by (rule keeps_size_topK)
  have e: "engine_ok (eng (state0\<lparr>outKeys := [7]\<rparr>))" "engine_ok (eng (state0\<lparr>outCosts := [1, 2]\<rparr>))"
    by (simp_all add: state0_def engine_ok_engine0)
  have a: "\<exists>s. getNBestList kernel0 False scores0 3 True (state0\<lparr>outKeys := [7]\<rparr>)
          = Aborted WrongResultCount s \<and>
        length (outKeys s) = 7 \<and> length (outCosts s) = 6"
    using getNBestList_appends [where st = "state0\<lparr>outKeys := [7]\<rparr>" and L = kernel0 and fp_half = False
        and scores = scores0 and isFirst = True and N = 3, OF e(1) k]
    by (simp add: state0_def scores0_def engine0_def supported_def runtime0_def reports_error_def) blast
  have b: "\<exists>s. getNBestList kernel0 False scores0 3 True (state0\<lparr>outCosts := [1, 2]\<rparr>) = Returned () s \<and>
        length (outKeys s) = 6 \<and> length (outCosts s) = 8"
    using getNBestList_appends [where st = "state0\<lparr>outCosts := [1, 2]\<rparr>" and L = kernel0 and fp_half = False
        and scores = scores0 and isFirst = True and N = 3, OF e(2) k]
    by (simp add: state0_def scores0_def engine0_def supported_def runtime0_def reports_error_def) blast
  from a b show ?thesis by (intro conjI)
qed

section \<open>Descending order and the local top-K\<close>


lemma set_descending: "set (descending xs) = set xs"
  by (simp add: descending_def)




lemma set_local_topk: "set (local_topk K xs) \<subseteq> set xs"
  using set_take_subset [of K "descending xs"] by (simp add: local_topk_def set_descending)














section \<open>The blocks of a batch entry\<close>














lemma length_write_tops: "length (write_tops res batch K blank tps) = length tps"
  by (simp add: write_tops_def)

text \<open>The result slots do not depend on what the result buffer held.\<close>

lemma take_write_tops:
  assumes "n \<le> batch * K" "n \<le> length tpsA" "n \<le> length tpsB"
  shows "take n (write_tops res batch K blank tpsA) = take n (write_tops res batch K blank tpsB)"
proof (rule nth_equalityI)
  show "length (take n (write_tops res batch K blank tpsA))
          = length (take n (write_tops res batch K blank tpsB))"
    using assms by (simp add: length_write_tops)
next
  fix i assume "i < length (take n (write_tops res batch K blank tpsA))"
  then have i: "i < n" by simp
  with assms(1) have ik: "i < batch * K" by simp
  then have K: "0 < K" by (cases K) simp_all
  from ik have d: "i div K < batch" by (rule less_mult_imp_div_less)
  from i assms K d
  show "take n (write_tops res batch K blank tpsA) ! i = take n (write_tops res batch K blank tpsB) ! i"
    by (simp add: write_tops_def Let_def)
qed

section \<open>From the kernels' results to the output vectors\<close>

lemma unat_of_nat_small: "i < 2 ^ 31 \<Longrightarrow> unat (of_nat i :: 32 word) = i"
  by (simp add: unat_of_nat)

lemma unat_scast_nonneg:
  assumes "0 \<le> sint (x::32 word)"
  shows "unat (scast x :: 64 word) = nat (sint x)"
proof -
  have "sint x < 2 ^ 31" using sint_lt [of x] by simp
  then have lt: "sint x < 2 ^ 64" by (rule less_le_trans) simp
  have "uint (scast x :: 64 word) = uint (word_of_int (sint x) :: 64 word)"
    by (simp only: scast_eq)
  also have "\<dots> = sint x mod 2 ^ 64"
    by (simp only: uint_word_of_int len_of_numeral_defs) simp
  also have "\<dots> = sint x" using assms lt by simp
  finally have "uint (scast x :: 64 word) = sint x" .
  then show ?thesis by (simp only: unat_eq_nat_uint)
qed

lemma sint_ucast_small:
  assumes "unat (N :: 64 word) < 2 ^ 31"
  shows "nat (sint (ucast N :: 32 word)) = unat N"
proof -
  have "int (unat N) < 2 ^ 31" using assms by (simp only: of_nat_less_numeral_power_cancel_iff)
  moreover have un: "uint N = int (unat N)" by (rule uint_nat)
  ultimately have u: "uint N < 2 ^ 31" by (simp only:)
  have "(- (2 ^ 31) :: int) \<le> 0" by simp
  also have "0 \<le> uint N" by simp
  finally have lo: "- (2 ^ 31) \<le> uint N" .
  have "sint (ucast N :: 32 word) = sint (word_of_int (uint N) :: 32 word)"
    by (simp only: ucast_eq)
  also have "\<dots> = signed_take_bit 31 (uint N)"
    by (simp only: signed_of_int) simp
  also have "\<dots> = uint N"
    by (rule signed_take_bit_int_eq_self [OF lo u])
  finally have "sint (ucast N :: 32 word) = uint N" .
  then show ?thesis by (simp only: unat_eq_nat_uint)
qed

lemma sint_nonneg_of_scast_small:
  assumes "unat (scast (x::32 word) :: 64 word) < 2 ^ 31"
  shows "0 \<le> sint x"
proof (rule ccontr)
  assume "\<not> 0 \<le> sint x"
  then have neg: "sint x < 0" by simp
  have lo: "- (2 ^ 31) \<le> sint x" using sint_ge [of x] by simp
  have "uint (scast x :: 64 word) = uint (word_of_int (sint x) :: 64 word)"
    by (simp only: scast_eq)
  also have "\<dots> = sint x mod 2 ^ 64"
    by (simp only: uint_word_of_int len_of_numeral_defs) simp
  also have "\<dots> = sint x + 2 ^ 64"
  proof -
    have "(sint x + 2 ^ 64) mod 2 ^ 64 = sint x + 2 ^ 64"
      using neg lo by (intro mod_pos_pos_trivial) simp_all
    then show ?thesis by simp
  qed
  finally have "uint (scast x :: 64 word) = sint x + 2 ^ 64" .
  moreover have "uint (scast x :: 64 word) = int (unat (scast x :: 64 word))" by (rule uint_nat)
  moreover have "int (unat (scast x :: 64 word)) < 2 ^ 31"
    using assms by (simp only: of_nat_less_numeral_power_cancel_iff)
  ultimately have "sint x + 2 ^ 64 < 2 ^ 31" by (simp only:)
  with lo show False by simp
qed

text \<open>
  On an engine whose maxima fit an \<open>int\<close>, the batch size and the beam width the kernels
  are handed are those of the call.
\<close>

lemma kernel_arguments:
  assumes f: "fits_int (eng st)"
    and v: "scast (dim_m4 (shape scores)) \<le> maxBatchSize_m (eng st)"
      "max N (scast (dim_m2 (shape scores))) \<le> maxBeamSize_m (eng st)"
  shows "nat (sint (dim_m4 (shape scores))) = unat (scast (dim_m4 (shape scores)) :: size_t)"
    and "nat (sint (ucast N :: cint)) = unat N"
proof -
  have "unat (scast (dim_m4 (shape scores)) :: size_t) \<le> unat (maxBatchSize_m (eng st))"
    using v(1) by (simp add: word_le_nat_alt)
  also have "\<dots> < 2 ^ 31" using f by (simp add: fits_int_def)
  finally have "0 \<le> sint (dim_m4 (shape scores))" by (rule sint_nonneg_of_scast_small)
  then show "nat (sint (dim_m4 (shape scores))) = unat (scast (dim_m4 (shape scores)) :: size_t)"
    by (simp add: unat_scast_nonneg)
  have "N \<le> maxBeamSize_m (eng st)" using v(2) by simp
  then have "unat N \<le> unat (maxBeamSize_m (eng st))" by (simp add: word_le_nat_alt)
  also have "\<dots> < 2 ^ 31" using f by (simp add: fits_int_def)
  finally show "nat (sint (ucast N :: cint)) = unat N" by (rule sint_ucast_small)
qed


lemma topK_kernelLauncher_tops:
  "snd (snd (topK_kernelLauncher nb part blank probs ids vals tps batchSize beamsPerBatch beamWidth vocabSize))
     = write_tops (batch_topk probs nb part (nat (sint beamsPerBatch)) (nat (sint vocabSize))
                     (nat (sint beamWidth)))
         (nat (sint batchSize)) (nat (sint beamWidth)) blank tps"
  by (simp add: topK_kernelLauncher_def Let_def batch_topk_def [abs_def])



lemma short_returns:
  "getNBestList kernel0 False short_scores 3 True state0 = Returned () short_result"
  by code_simp

section \<open>The top-N property\<close>






section \<open>Two calls\<close>

text \<open>The five checks, in the order of the source.\<close>

lemma getNBestList_checks:
  "scast (dim_m2 (shape scores)) \<noteq> (if isFirst then 1 else N)
     \<Longrightarrow> getNBestList L fp_half scores N isFirst st = Aborted WrongBeamDim (set_device st)"
  "\<lbrakk>scast (dim_m2 (shape scores)) = (if isFirst then 1 else N);
    MAX_VOCAB_SIZE <s dim_m1 (shape scores)\<rbrakk>
     \<Longrightarrow> getNBestList L fp_half scores N isFirst st = Aborted VocabTooLarge (set_device st)"
  "\<lbrakk>scast (dim_m2 (shape scores)) = (if isFirst then 1 else N);
    \<not> MAX_VOCAB_SIZE <s dim_m1 (shape scores);
    maxBatchSize_m (eng st) < scast (dim_m4 (shape scores))\<rbrakk>
     \<Longrightarrow> getNBestList L fp_half scores N isFirst st = Aborted BatchTooLarge (set_device st)"
  "\<lbrakk>scast (dim_m2 (shape scores)) = (if isFirst then 1 else N);
    \<not> MAX_VOCAB_SIZE <s dim_m1 (shape scores);
    \<not> maxBatchSize_m (eng st) < scast (dim_m4 (shape scores));
    maxBeamSize_m (eng st) < max N (if isFirst then 1 else N)\<rbrakk>
     \<Longrightarrow> getNBestList L fp_half scores N isFirst st = Aborted BeamTooLarge (set_device st)"
  "\<lbrakk>scast (dim_m2 (shape scores)) = (if isFirst then 1 else N);
    \<not> MAX_VOCAB_SIZE <s dim_m1 (shape scores);
    \<not> maxBatchSize_m (eng st) < scast (dim_m4 (shape scores));
    \<not> maxBeamSize_m (eng st) < max N (if isFirst then 1 else N);
    elem_type scores \<noteq> float32; \<not> (fp_half \<and> elem_type scores = float16)\<rbrakk>
     \<Longrightarrow> getNBestList L fp_half scores N isFirst st = Aborted TypeNotImplemented (set_device st)"
  unfolding getNBestList_def Let_def
  by (simp_all only: set_device_simps if_True if_False simp_thms outcome.case)

lemma getNBestList_invalid_same:
  assumes inv: "\<not> (scast (dim_m2 (shape scores)) = (if isFirst then 1 else N) \<and>
              sint (dim_m1 (shape scores)) \<le> 500000 \<and>
              scast (dim_m4 (shape scores)) \<le> maxBatchSize_m (eng sa) \<and>
              max N (scast (dim_m2 (shape scores))) \<le> maxBeamSize_m (eng sa) \<and>
              supported fp_half (elem_type scores))"
    and mb: "maxBatchSize_m (eng sa) = maxBatchSize_m (eng sb)"
    and mk: "maxBeamSize_m (eng sa) = maxBeamSize_m (eng sb)"
  shows "\<exists>e. getNBestList L fp_half scores N isFirst sa = Aborted e (set_device sa) \<and>
             getNBestList L fp_half scores N isFirst sb = Aborted e (set_device sb)"
proof (cases "scast (dim_m2 (shape scores)) = (if isFirst then 1 else N)")
  case False
  from getNBestList_checks(1) [OF False] show ?thesis by blast
next
  case c1: True
  show ?thesis
  proof (cases "MAX_VOCAB_SIZE <s dim_m1 (shape scores)")
    case True
    from getNBestList_checks(2) [OF c1 True] show ?thesis by blast
  next
    case c2: False
    show ?thesis
    proof (cases "maxBatchSize_m (eng sa) < scast (dim_m4 (shape scores))")
      case True
      then have "maxBatchSize_m (eng sb) < scast (dim_m4 (shape scores))" by (simp only: mb)
      from getNBestList_checks(3) [OF c1 c2 True] getNBestList_checks(3) [OF c1 c2 this]
      show ?thesis by blast
    next
      case c3: False
      then have c3': "\<not> maxBatchSize_m (eng sb) < scast (dim_m4 (shape scores))"
        by (simp only: mb simp_thms)
      show ?thesis
      proof (cases "maxBeamSize_m (eng sa) < max N (if isFirst then 1 else N)")
        case True
        then have "maxBeamSize_m (eng sb) < max N (if isFirst then 1 else N)" by (simp only: mk)
        from getNBestList_checks(4) [OF c1 c2 c3 True] getNBestList_checks(4) [OF c1 c2 c3' this]
        show ?thesis by blast
      next
        case c4: False
        then have c4': "\<not> maxBeamSize_m (eng sb) < max N (if isFirst then 1 else N)"
          by (simp only: mk simp_thms)
        have "sint (dim_m1 (shape scores)) \<le> 500000"
          using c2 by (simp add: MAX_VOCAB_SIZE_def word_sless_alt)
        moreover have "scast (dim_m4 (shape scores)) \<le> maxBatchSize_m (eng sa)"
          using c3 by (simp only: not_less)
        moreover have "max N (scast (dim_m2 (shape scores))) \<le> maxBeamSize_m (eng sa)"
          using c4 by (simp only: not_less c1)
        ultimately have "\<not> supported fp_half (elem_type scores)"
          using inv c1 by blast
        then have c5: "elem_type scores \<noteq> float32" "\<not> (fp_half \<and> elem_type scores = float16)"
          by (simp_all add: supported_def)
        from getNBestList_checks(5) [OF c1 c2 c3 c4 c5] getNBestList_checks(5) [OF c1 c2 c3' c4' c5]
        show ?thesis by blast
      qed
    qed
  qed
qed

text \<open>A call leaves the engine its maxima and its buffers their sizes.\<close>

lemma getNBestList_keeps_engine:
  fixes L fp_half scores N isFirst st
  assumes ok: "engine_ok (eng st)" and L: "keeps_size L"
  defines "r \<equiv> getNBestList L fp_half scores N isFirst st"
  shows "engine_ok (eng (state_of r)) \<and>
         maxBatchSize_m (eng (state_of r)) = maxBatchSize_m (eng st) \<and>
         maxBeamSize_m (eng (state_of r)) = maxBeamSize_m (eng st) \<and>
         failing (rt (state_of r)) = failing (rt st)"
proof (cases "scast (dim_m2 (shape scores)) = (if isFirst then 1 else N) \<and>
              sint (dim_m1 (shape scores)) \<le> 500000 \<and>
              scast (dim_m4 (shape scores)) \<le> maxBatchSize_m (eng st) \<and>
              max N (scast (dim_m2 (shape scores))) \<le> maxBeamSize_m (eng st) \<and>
              supported fp_half (elem_type scores)")
  case False
  from getNBestList_invalid [OF False]
  obtain e where "r = Aborted e (set_device st)" unfolding r_def by blast
  with ok show ?thesis by (simp add: state_of_def)
next
  case True
  then have v: "scast (dim_m2 (shape scores)) = (if isFirst then 1 else N)"
      "sint (dim_m1 (shape scores)) \<le> 500000"
      "scast (dim_m4 (shape scores)) \<le> maxBatchSize_m (eng st)"
      "max N (scast (dim_m2 (shape scores))) \<le> maxBeamSize_m (eng st)"
      "supported fp_half (elem_type scores)"
    by blast+
  show ?thesis
  proof (cases "reports_error (unat (scast (dim_m4 (shape scores)) * N :: size_t)) (rt st)")
    case er: True
    from getNBestList_valid_error [OF ok L v er]
    obtain s where s: "r = Aborted CudaError s"
        "length (tops (eng s)) = length (tops (eng st))"
        "length (topsHost (eng s)) = length (topsHost (eng st))"
        "maxBatchSize_m (eng s) = maxBatchSize_m (eng st)"
        "maxBeamSize_m (eng s) = maxBeamSize_m (eng st)"
        "failing (rt s) = failing (rt st)"
      unfolding r_def by blast
    with ok show ?thesis by (simp add: state_of_def engine_ok_def)
  next
    case ne: False
    let ?T = "snd (snd (L (elems scores) (topk_tmp_id_buf (eng st)) (topk_tmp_val_buf (eng st))
       (tops (eng st)) (dim_m4 (shape scores)) (dim_m2 (shape scores)) (ucast N) (dim_m1 (shape scores))))"
    let ?n = "unat (scast (dim_m4 (shape scores)) :: size_t) * unat N"
    from getNBestList_valid_result [OF ok L v ne]
    obtain s where s: "r = (if outKeys st = [] then Returned () s else Aborted WrongResultCount s)"
        "tops (eng s) = ?T" "?n \<le> length ?T"
        "topsHost (eng s) = take ?n ?T @ drop ?n (topsHost (eng st))"
        "maxBatchSize_m (eng s) = maxBatchSize_m (eng st)"
        "maxBeamSize_m (eng s) = maxBeamSize_m (eng st)"
        "failing (rt s) = failing (rt st)"
      unfolding r_def by blast
    have T: "length ?T = length (tops (eng st))" using L by (simp add: keeps_size_def)
    have st: "state_of r = s" by (simp add: s(1) state_of_def)
    have "length (topsHost (eng s)) = length (topsHost (eng st))"
      using s(3) T ok by (simp add: s(4) engine_ok_def)
    with ok T show ?thesis by (simp add: st s(2,5,6,7) engine_ok_def)
  qed
qed

lemma make_calls_keep_engine:
  assumes "engine_ok (eng st)" "keeps_size L"
  shows "engine_ok (eng (make_calls L fp_half cs st)) \<and>
         maxBatchSize_m (eng (make_calls L fp_half cs st)) = maxBatchSize_m (eng st) \<and>
         maxBeamSize_m (eng (make_calls L fp_half cs st)) = maxBeamSize_m (eng st) \<and>
         failing (rt (make_calls L fp_half cs st)) = failing (rt st)"
  using assms(1)
proof (induction cs arbitrary: st)
  case Nil
  then show ?case by (simp add: make_calls_def)
next
  case (Cons c cs)
  let ?s = "st\<lparr>outCosts := call_costs c, outKeys := call_keys c\<rparr>"
  have "engine_ok (eng ?s)" using Cons.prems by simp
  from getNBestList_keeps_engine [OF this assms(2), of fp_half "call_scores c" "call_N c" "call_isFirst c"]
  have k: "engine_ok (eng (make_call L fp_half c st))"
      "maxBatchSize_m (eng (make_call L fp_half c st)) = maxBatchSize_m (eng st)"
      "maxBeamSize_m (eng (make_call L fp_half c st)) = maxBeamSize_m (eng st)"
      "failing (rt (make_call L fp_half c st)) = failing (rt st)"
    by (simp_all add: make_call_def)
  have "make_calls L fp_half (c # cs) st = make_calls L fp_half cs (make_call L fp_half c st)"
    by (simp add: make_calls_def)
  with Cons.IH [OF k(1)] k(2-4) show ?case by simp
qed

text \<open>
  C5, for the modelled kernels. Take two states of one engine whose buffers have their
  sizes and whose maxima fit an \<open>int\<close>: the scratch buffers, the result buffer and the
  host mirror may hold anything in each of them, as after any calls made in between. Let
  the output vectors be the same in both, and the runtime report the same errors. Then
  the same call, made in the one and in the other, aborts in both on the same check or
  returns in both, and leaves the same keys and the same costs. A call leaves a state of
  the same engine, buffers of the same sizes, so this holds of any two calls of a
  sequence of calls: after any calls on the scenario's engine, the call on the tensor of
  one short row gives what it gives on the fresh engine.
\<close>

theorem two_calls_same:
  fixes scores :: "'v::linorder Tensor" and nb part blank fp_half N isFirst sa sb
  assumes oka: "engine_ok (eng sa)" and okb: "engine_ok (eng sb)"
    and f: "fits_int (eng sa)"
    and same: "same_engine sa sb"
    and keys: "outKeys sa = outKeys sb" and costs: "outCosts sa = outCosts sb"
  defines "ra \<equiv> getNBestList (topK_kernelLauncher nb part blank) fp_half scores N isFirst sa"
    and "rb \<equiv> getNBestList (topK_kernelLauncher nb part blank) fp_half scores N isFirst sb"
  shows "verdict ra = verdict rb \<and>
         outKeys (state_of ra) = outKeys (state_of rb) \<and>
         outCosts (state_of ra) = outCosts (state_of rb) \<and>
         engine_ok (eng (state_of ra)) \<and> fits_int (eng (state_of ra)) \<and>
         same_engine sa (state_of ra)"
proof -
  let ?L = "topK_kernelLauncher nb part blank :: 'v launcher"
  have mx: "maxBatchSize_m (eng sa) = maxBatchSize_m (eng sb)"
      "maxBeamSize_m (eng sa) = maxBeamSize_m (eng sb)"
      "failing (rt sa) = failing (rt sb)"
    using same by (simp_all add: same_engine_def)
  from getNBestList_keeps_engine [OF oka keeps_size_topK [of nb part blank], of fp_half scores N isFirst]
  have keep: "engine_ok (eng (state_of ra)) \<and> fits_int (eng (state_of ra)) \<and>
         same_engine sa (state_of ra)"
    using f by (simp add: ra_def fits_int_def same_engine_def)
  have out: "verdict ra = verdict rb \<and>
         outKeys (state_of ra) = outKeys (state_of rb) \<and>
         outCosts (state_of ra) = outCosts (state_of rb)"
  proof (cases "scast (dim_m2 (shape scores)) = (if isFirst then 1 else N) \<and>
              sint (dim_m1 (shape scores)) \<le> 500000 \<and>
              scast (dim_m4 (shape scores)) \<le> maxBatchSize_m (eng sa) \<and>
              max N (scast (dim_m2 (shape scores))) \<le> maxBeamSize_m (eng sa) \<and>
              supported fp_half (elem_type scores)")
    case False
    from getNBestList_invalid_same [OF False mx(1,2), of ?L]
    obtain e where "ra = Aborted e (set_device sa)" "rb = Aborted e (set_device sb)"
      unfolding ra_def rb_def by blast
    then show ?thesis using keys costs by (simp add: verdict_def state_of_def)
  next
    case True
    then have va: "scast (dim_m2 (shape scores)) = (if isFirst then 1 else N)"
        "sint (dim_m1 (shape scores)) \<le> 500000"
        "scast (dim_m4 (shape scores)) \<le> maxBatchSize_m (eng sa)"
        "max N (scast (dim_m2 (shape scores))) \<le> maxBeamSize_m (eng sa)"
        "supported fp_half (elem_type scores)"
      by blast+
    then have vb: "scast (dim_m2 (shape scores)) = (if isFirst then 1 else N)"
        "sint (dim_m1 (shape scores)) \<le> 500000"
        "scast (dim_m4 (shape scores)) \<le> maxBatchSize_m (eng sb)"
        "max N (scast (dim_m2 (shape scores))) \<le> maxBeamSize_m (eng sb)"
        "supported fp_half (elem_type scores)"
      by (simp_all only: mx(1,2) [symmetric])
    show ?thesis
    proof (cases "reports_error (unat (scast (dim_m4 (shape scores)) * N :: size_t)) (rt sa)")
      case era: True
      then have erb: "reports_error (unat (scast (dim_m4 (shape scores)) * N :: size_t)) (rt sb)"
        by (simp add: reports_error_def mx(3))
      from getNBestList_valid_error [OF oka keeps_size_topK [of nb part blank] va era]
      obtain s where s: "ra = Aborted CudaError s" "outKeys s = outKeys sa" "outCosts s = outCosts sa"
        unfolding ra_def by blast
      from getNBestList_valid_error [OF okb keeps_size_topK [of nb part blank] vb erb]
      obtain t where t: "rb = Aborted CudaError t" "outKeys t = outKeys sb" "outCosts t = outCosts sb"
        unfolding rb_def by blast
      from s t keys costs show ?thesis by (simp add: verdict_def state_of_def)
    next
      case nea: False
      then have neb: "\<not> reports_error (unat (scast (dim_m4 (shape scores)) * N :: size_t)) (rt sb)"
        by (simp add: reports_error_def mx(3))
      let ?batch = "nat (sint (dim_m4 (shape scores)))"
      let ?K = "nat (sint (ucast N :: cint))"
      let ?n = "unat (scast (dim_m4 (shape scores)) :: size_t) * unat N"
      let ?W = "write_tops (batch_topk (elems scores) nb part (nat (sint (dim_m2 (shape scores))))
                   (nat (sint (dim_m1 (shape scores)))) ?K) ?batch ?K blank"
      note ka = kernel_arguments [OF f va(3,4)]
      have n: "?n = ?batch * ?K" by (simp only: ka)
      from getNBestList_valid_result [OF oka keeps_size_topK [of nb part blank] va nea,
          unfolded topK_kernelLauncher_tops]
      obtain s where s: "ra = (if outKeys sa = [] then Returned () s else Aborted WrongResultCount s)"
          "outKeys s = outKeys sa @ map p (take ?n (?W (tops (eng sa))))"
          "outCosts s = outCosts sa @ map u (take ?n (?W (tops (eng sa))))"
          "?n \<le> length (?W (tops (eng sa)))"
        unfolding ra_def by blast
      from getNBestList_valid_result [OF okb keeps_size_topK [of nb part blank] vb neb,
          unfolded topK_kernelLauncher_tops]
      obtain t where t: "rb = (if outKeys sb = [] then Returned () t else Aborted WrongResultCount t)"
          "outKeys t = outKeys sb @ map p (take ?n (?W (tops (eng sb))))"
          "outCosts t = outCosts sb @ map u (take ?n (?W (tops (eng sb))))"
          "?n \<le> length (?W (tops (eng sb)))"
        unfolding rb_def by blast
      have "take ?n (?W (tops (eng sa))) = take ?n (?W (tops (eng sb)))"
        using s(4) t(4) n by (intro take_write_tops) (simp_all add: length_write_tops)
      with s(1-3) t(1-3) keys costs show ?thesis
        by (simp add: verdict_def state_of_def)
    qed
  qed
  from out keep show ?thesis by (intro conjI) (elim conjE, assumption)+
qed

theorem two_calls_same_witness:
  "\<forall>cs. verdict (getNBestList kernel0 False short_scores 3 True
                    ((make_calls kernel0 False cs state0)\<lparr>outCosts := [], outKeys := []\<rparr>)) = None \<and>
        outKeys (state_of (getNBestList kernel0 False short_scores 3 True
                    ((make_calls kernel0 False cs state0)\<lparr>outCosts := [], outKeys := []\<rparr>)))
          = [0, 1, - 1] \<and>
        outCosts (state_of (getNBestList kernel0 False short_scores 3 True
                    ((make_calls kernel0 False cs state0)\<lparr>outCosts := [], outKeys := []\<rparr>)))
          = [- 5, - 7, - 1000]"
proof
  fix cs :: "int call list"
  let ?sb = "(make_calls kernel0 False cs state0)\<lparr>outCosts := [], outKeys := []\<rparr>"
  have oka: "engine_ok (eng state0)" by (simp add: state0_def engine_ok_engine0)
  have kp: "keeps_size kernel0" unfolding kernel0_def by (rule keeps_size_topK)
  note m = make_calls_keep_engine [OF oka kp, of False cs]
  have okb: "engine_ok (eng ?sb)" using m by simp
  have f: "fits_int (eng state0)" by (simp add: state0_def engine0_def fits_int_def)
  have same: "same_engine state0 ?sb" using m by (simp add: same_engine_def)
  have k: "outKeys state0 = outKeys ?sb" "outCosts state0 = outCosts ?sb"
    by (simp_all add: state0_def)
  from two_calls_same [OF oka okb f same k, of 2 "\<lambda>v. v mod 2" "\<lparr>p = - 1, u = - 1000\<rparr>"
      False short_scores 3 True, folded kernel0_def, unfolded short_returns]
  have "verdict (getNBestList kernel0 False short_scores 3 True ?sb) = None"
    "outKeys (state_of (getNBestList kernel0 False short_scores 3 True ?sb)) = [0, 1, - 1]"
    "outCosts (state_of (getNBestList kernel0 False short_scores 3 True ?sb)) = [- 5, - 7, - 1000]"
    by (simp_all add: verdict_def state_of_def short_result_def)
  then show "verdict (getNBestList kernel0 False short_scores 3 True ?sb) = None \<and>
        outKeys (state_of (getNBestList kernel0 False short_scores 3 True ?sb)) = [0, 1, - 1] \<and>
        outCosts (state_of (getNBestList kernel0 False short_scores 3 True ?sb)) = [- 5, - 7, - 1000]"
    by (intro conjI)
qed

end
